theory Spec2Isabelle
  imports Main "HOL-Library.Sublist" "HOL-Library.Word"
begin

section \<open>Values, exceptions and messages\<close>

text \<open>
  The two programs of \<^verbatim>\<open>src/session_1\<close> are embedded: \<^verbatim>\<open>chat_with_react_agent.py\<close>
  (the class \<^verbatim>\<open>ReactAgent\<close> and its three lookup functions) and
  \<^verbatim>\<open>chat_with_pure_tool.py\<close> (\<^verbatim>\<open>get_completion_from_messages\<close>). Console output
  (\<^verbatim>\<open>print\<close>) is not modelled.
\<close>

text \<open>
  What \<^verbatim>\<open>json.loads\<close> and \<^verbatim>\<open>response.json()\<close> produce: \<^verbatim>\<open>None\<close>, \<^verbatim>\<open>bool\<close>,
  \<^verbatim>\<open>int\<close>, \<^verbatim>\<open>float\<close> (kept as its 64 bits, never computed with), \<^verbatim>\<open>str\<close>,
  \<^verbatim>\<open>list\<close> and \<^verbatim>\<open>dict\<close> (its items in insertion order, keys distinct).
\<close>

datatype json =
  JNull
| JBool bool
| JInt int
| JFloat "64 word"
| JStr string
| JList "json list"
| JObj "(string \<times> json) list"

text \<open>
  The exceptions the code can raise. \<open>AttributeError t a\<close>: an object of type \<open>t\<close> has no
  attribute \<open>a\<close>. \<open>ExternalError\<close>: whatever the OpenAI client or \<^verbatim>\<open>requests\<close> raises.
\<close>

datatype py_exn =
  KeyError string
| TypeError
| AttributeError string string
| JSONDecodeError
| ExternalError string

datatype 'a outcome = Returned 'a | Raised py_exn

text \<open>
  A tool call of a response: \<^verbatim>\<open>tc.id\<close>, \<^verbatim>\<open>tc.function.name\<close>,
  \<^verbatim>\<open>tc.function.arguments\<close>.
\<close>

record tool_call =
  tc_id :: string
  tc_name :: string
  tc_arguments :: string

text \<open>
  \<^verbatim>\<open>response.choices[0].message\<close>: \<^verbatim>\<open>content\<close> is a string or \<^verbatim>\<open>None\<close>,
  \<^verbatim>\<open>tool_calls\<close> a list or \<^verbatim>\<open>None\<close>.
\<close>

record response_message =
  resp_content :: "string option"
  resp_tool_calls :: "tool_call list option"

text \<open>
  The dictionary \<^verbatim>\<open>{"id": .., "type": .., "function": {"name": .., "arguments": ..}}\<close>
  stored in an assistant message.
\<close>

record tool_call_dict =
  call_id :: string
  call_type :: string
  function_name :: string
  function_arguments :: string

text \<open>
  A message of the transcript is a dictionary over the keys below. An absent key is
  \<open>None\<close>; \<^verbatim>\<open>"content": None\<close> is \<open>Some None\<close>.
\<close>

record message =
  role :: string
  content :: "string option option"
  tool_calls :: "tool_call_dict list option"
  tool_call_id :: "string option"
  name :: "string option"

record http_response =
  status_code :: int
  json_result :: "py_exn + json"

section \<open>The world outside the code\<close>

text \<open>
  The collaborators the source calls and does not define are parameters:
  \<^item> \<open>llm n model msgs\<close>: what \<^verbatim>\<open>client.chat.completions.create(...)\<close> followed by
    \<^verbatim>\<open>.choices[0].message\<close> gives on the \<open>n\<close>-th call of the run (counted from 0) for
    the transcript \<open>msgs\<close>, or the exception raised; the constant arguments
    (\<^verbatim>\<open>tools\<close>, \<^verbatim>\<open>tool_choice\<close>, \<^verbatim>\<open>parallel_tool_calls\<close>) are part of it;
  \<^item> \<open>http_get n url\<close>: \<^verbatim>\<open>requests.get(url)\<close> on the \<open>n\<close>-th request;
  \<^item> \<open>json_loads\<close>, \<open>json_dumps\<close>: the \<^verbatim>\<open>json\<close> module;
  \<^item> \<open>py_repr\<close>: what an f-string substitutes for a value that is not a \<^verbatim>\<open>str\<close>.
\<close>

record env =
  llm :: "nat \<Rightarrow> string \<Rightarrow> message list \<Rightarrow> py_exn + response_message"
  http_get :: "nat \<Rightarrow> string \<Rightarrow> py_exn + http_response"
  json_loads :: "string \<Rightarrow> py_exn + json"
  json_dumps :: "json \<Rightarrow> string"
  py_repr :: "json \<Rightarrow> string"

type_synonym ref = nat

text \<open>
  The state a run acts on. \<open>store\<close> maps the address of a list object to its elements:
  \<^verbatim>\<open>messages\<close> is a reference and \<^verbatim>\<open>messages.append\<close> updates the object it
  points to. The other three fields are observations added to the model: the gateway
  results received so far, the number of HTTP requests made, and the capability calls
  made so far (the registry key, the bound \<^verbatim>\<open>date\<close> argument, the value returned or
  the exception raised).
\<close>

record world =
  store :: "ref \<Rightarrow> message list"
  gateway_log :: "(py_exn + response_message) list"
  http_calls :: nat
  exec_log :: "(string \<times> json \<times> (py_exn + json)) list"

definition append_msg :: "ref \<Rightarrow> message \<Rightarrow> world \<Rightarrow> world" where
  "append_msg messages m w = w\<lparr>store := (store w)(messages := store w messages @ [m])\<rparr>"

definition create_completion ::
  "env \<Rightarrow> string \<Rightarrow> ref \<Rightarrow> world \<Rightarrow> (py_exn + response_message) \<times> world" where
  "create_completion e mdl messages w =
     (let r = llm e (length (gateway_log w)) mdl (store w messages)
      in (r, w\<lparr>gateway_log := gateway_log w @ [r]\<rparr>))"

definition requests_get :: "env \<Rightarrow> string \<Rightarrow> world \<Rightarrow> (py_exn + http_response) \<times> world" where
  "requests_get e url w = (http_get e (http_calls w) url, w\<lparr>http_calls := Suc (http_calls w)\<rparr>)"

section \<open>Python primitives the tools use\<close>

fun py_type_name :: "json \<Rightarrow> string" where
  "py_type_name JNull = ''NoneType''"
| "py_type_name (JBool _) = ''bool''"
| "py_type_name (JInt _) = ''int''"
| "py_type_name (JFloat _) = ''float''"
| "py_type_name (JStr _) = ''str''"
| "py_type_name (JList _) = ''list''"
| "py_type_name (JObj _) = ''dict''"

text \<open>\<^verbatim>\<open>f"...{date}"\<close>: a string is inserted as it is.\<close>

fun format_value :: "env \<Rightarrow> json \<Rightarrow> string" where
  "format_value e (JStr s) = s"
| "format_value e v = py_repr e v"

text \<open>
  \<^verbatim>\<open>data.get(key)\<close>: only a \<^verbatim>\<open>dict\<close> has the method; a missing key gives
  \<^verbatim>\<open>None\<close>.
\<close>

fun py_get :: "json \<Rightarrow> string \<Rightarrow> py_exn + json" where
  "py_get (JObj kvs) k = Inr (case map_of kvs k of None \<Rightarrow> JNull | Some v \<Rightarrow> v)"
| "py_get v k = Inl (AttributeError (py_type_name v) ''get'')"

text \<open>
  \<^verbatim>\<open>data.map(lambda day: ...)\<close>: the attribute lookup comes first, and none of the
  types a decoded JSON value can have (\<^verbatim>\<open>dict\<close>, \<^verbatim>\<open>list\<close>, \<^verbatim>\<open>str\<close>, \<^verbatim>\<open>int\<close>,
  \<^verbatim>\<open>float\<close>, \<^verbatim>\<open>bool\<close>, \<^verbatim>\<open>NoneType\<close>) has an attribute \<^verbatim>\<open>map\<close>.
\<close>

fun py_map_method :: "json \<Rightarrow> py_exn + json" where
  "py_map_method v = Inl (AttributeError (py_type_name v) ''map'')"

text \<open>Truth value of \<^verbatim>\<open>response_message.tool_calls\<close>: \<^verbatim>\<open>None\<close> and \<^verbatim>\<open>[]\<close> are false.\<close>

fun truthy :: "'a list option \<Rightarrow> bool" where
  "truthy None = False"
| "truthy (Some []) = False"
| "truthy (Some (x # xs)) = True"

fun calls_of :: "'a list option \<Rightarrow> 'a list" where
  "calls_of None = []"
| "calls_of (Some xs) = xs"

section \<open>Tool functions of \<^verbatim>\<open>chat_with_react_agent.py\<close>\<close>

type_synonym tool = "env \<Rightarrow> json \<Rightarrow> world \<Rightarrow> (py_exn + json) \<times> world"

definition get_name_for_day :: tool where
  "get_name_for_day e date w =
     (case requests_get e (''https://svatkyapi.cz/api/day/'' @ format_value e date) w of
        (Inl x, w1) \<Rightarrow> (Inl x, w1)
      | (Inr response, w1) \<Rightarrow>
          if status_code response = 200 then
            (case json_result response of
               Inl x \<Rightarrow> (Inl x, w1)
             | Inr data \<Rightarrow>
                 (case py_get data ''name'' of
                    Inl x \<Rightarrow> (Inl x, w1)
                  | Inr nm \<Rightarrow> (Inr (JObj [(''date'', date), (''name'', nm)]), w1)))
          else (Inr (JObj [(''date'', date), (''name'', JStr ''Error fetching data'')]), w1))"

definition get_all_info_about_day :: tool where
  "get_all_info_about_day e date w =
     (case requests_get e (''https://svatkyapi.cz/api/day/'' @ format_value e date) w of
        (Inl x, w1) \<Rightarrow> (Inl x, w1)
      | (Inr response, w1) \<Rightarrow>
          if status_code response = 200 then
            (case json_result response of
               Inl x \<Rightarrow> (Inl x, w1)
             | Inr data \<Rightarrow> (Inr (JObj [(''date'', date), (''data'', data)]), w1))
          else (Inr (JObj [(''date'', date), (''data'', JStr ''Error fetching data'')]), w1))"

definition get_names_for_week :: tool where
  "get_names_for_week e date w =
     (case requests_get e (''https://svatkyapi.cz/api/week/'' @ format_value e date) w of
        (Inl x, w1) \<Rightarrow> (Inl x, w1)
      | (Inr response, w1) \<Rightarrow>
          if status_code response = 200 then
            (case json_result response of
               Inl x \<Rightarrow> (Inl x, w1)
             | Inr data \<Rightarrow>
                 (case py_map_method data of
                    Inl x \<Rightarrow> (Inl x, w1)
                  | Inr weekData \<Rightarrow> (Inr (JObj [(''date'', date), (''weekData'', weekData)]), w1)))
          else (Inr (JObj [(''date'', date), (''weekData'', JStr ''Error fetching data'')]), w1))"

definition available_functions :: "string \<rightharpoonup> tool" where
  "available_functions =
     map_of [(''get_name_for_day'', get_name_for_day),
             (''get_all_info_about_day'', get_all_info_about_day),
             (''get_names_for_week'', get_names_for_week)]"

text \<open>
  \<^verbatim>\<open>function_to_call(**function_args)\<close>: every tool has the one parameter \<^verbatim>\<open>date\<close>,
  so the call binds only a \<^verbatim>\<open>dict\<close> whose single key is \<^verbatim>\<open>"date"\<close>, and is a
  \<^verbatim>\<open>TypeError\<close> otherwise. The call that is made is recorded in \<open>exec_log\<close>.
\<close>

fun call_kwargs :: "string \<Rightarrow> tool \<Rightarrow> env \<Rightarrow> json \<Rightarrow> world \<Rightarrow> (py_exn + json) \<times> world" where
  "call_kwargs fname f e (JObj [(k, v)]) w =
     (if k = ''date'' then
        (case f e v w of
           (r, w1) \<Rightarrow> (r, w1\<lparr>exec_log := exec_log w1 @ [(fname, v, r)]\<rparr>))
      else (Inl TypeError, w))"
| "call_kwargs fname f e args w = (Inl TypeError, w)"

section \<open>\<^verbatim>\<open>ReactAgent\<close>\<close>

record ReactAgent =
  model :: string
  max_iterations :: int

definition ReactAgent_init :: "string \<Rightarrow> ReactAgent" where
  "ReactAgent_init mdl = \<lparr>model = mdl, max_iterations = 10\<rparr>"

definition tool_call_entry :: "tool_call \<Rightarrow> tool_call_dict" where
  "tool_call_entry tc =
     \<lparr>call_id = tc_id tc, call_type = ''function'',
      function_name = tc_name tc, function_arguments = tc_arguments tc\<rparr>"

definition assistant_tool_calls_msg :: "response_message \<Rightarrow> message" where
  "assistant_tool_calls_msg response_message =
     \<lparr>role = ''assistant'', content = Some (resp_content response_message),
      tool_calls = Some (map tool_call_entry (calls_of (resp_tool_calls response_message))),
      tool_call_id = None, name = None\<rparr>"

definition tool_msg :: "env \<Rightarrow> string \<Rightarrow> string \<Rightarrow> json \<Rightarrow> message" where
  "tool_msg e tool_id fname function_response =
     \<lparr>role = ''tool'', content = Some (Some (json_dumps e function_response)),
      tool_calls = None, tool_call_id = Some tool_id, name = Some fname\<rparr>"

definition final_msg :: "string option \<Rightarrow> message" where
  "final_msg final_content =
     \<lparr>role = ''assistant'', content = Some final_content,
      tool_calls = None, tool_call_id = None, name = None\<rparr>"

text \<open>The body of \<^verbatim>\<open>for tool_call in response_message.tool_calls\<close>, for one request.\<close>

definition exec_tool_call :: "env \<Rightarrow> ref \<Rightarrow> tool_call \<Rightarrow> world \<Rightarrow> (py_exn + unit) \<times> world" where
  "exec_tool_call e messages tool_call w =
     (let function_name = tc_name tool_call in
      case json_loads e (tc_arguments tool_call) of
        Inl x \<Rightarrow> (Inl x, w)
      | Inr function_args \<Rightarrow>
          (let tool_id = tc_id tool_call in
           case available_functions function_name of
             None \<Rightarrow> (Inl (KeyError function_name), w)
           | Some function_to_call \<Rightarrow>
               (case call_kwargs function_name function_to_call e function_args w of
                  (Inl x, w1) \<Rightarrow> (Inl x, w1)
                | (Inr function_response, w1) \<Rightarrow>
                    (Inr (), append_msg messages (tool_msg e tool_id function_name function_response) w1))))"

text \<open>The \<^verbatim>\<open>for\<close> loop: the requests in list order, stopping at the first exception.\<close>

fun exec_tool_calls :: "env \<Rightarrow> ref \<Rightarrow> tool_call list \<Rightarrow> world \<Rightarrow> (py_exn + unit) \<times> world" where
  "exec_tool_calls e messages [] w = (Inr (), w)"
| "exec_tool_calls e messages (tool_call # rest) w =
     (case exec_tool_call e messages tool_call w of
        (Inl x, w1) \<Rightarrow> (Inl x, w1)
      | (Inr u, w1) \<Rightarrow> exec_tool_calls e messages rest w1)"

definition limit_text :: string where
  "limit_text = ''Error: Maximum iterations reached without getting a final answer.''"

text \<open>
  One pass through the body of the \<^verbatim>\<open>while\<close> loop. \<open>Inl\<close>: the pass left the function
  (a \<^verbatim>\<open>return\<close> or an exception); \<open>Inr\<close>: it reached \<^verbatim>\<open>continue\<close>.
\<close>

definition run_iteration ::
  "env \<Rightarrow> ReactAgent \<Rightarrow> ref \<Rightarrow> world \<Rightarrow> (string option outcome + unit) \<times> world" where
  "run_iteration e self messages w =
     (case create_completion e (model self) messages w of
        (Inl x, w1) \<Rightarrow> (Inl (Raised x), w1)
      | (Inr response_message, w1) \<Rightarrow>
          if truthy (resp_tool_calls response_message) then
            (case exec_tool_calls e messages (calls_of (resp_tool_calls response_message))
                    (append_msg messages (assistant_tool_calls_msg response_message) w1) of
               (Inl x, w2) \<Rightarrow> (Inl (Raised x), w2)
             | (Inr u, w2) \<Rightarrow> (Inr (), w2))
          else
            (let final_content = resp_content response_message
             in (Inl (Returned final_content), append_msg messages (final_msg final_content) w1)))"

function run_loop ::
  "env \<Rightarrow> ReactAgent \<Rightarrow> ref \<Rightarrow> int \<Rightarrow> world \<Rightarrow> string option outcome \<times> world" where
  "run_loop e self messages iteration w =
     (if iteration < max_iterations self then
        (case run_iteration e self messages w of
           (Inl res, w1) \<Rightarrow> (res, w1)
         | (Inr u, w1) \<Rightarrow> run_loop e self messages (iteration + 1) w1)
      else (Returned (Some limit_text), w))"
  by pat_completeness auto
termination
  by (relation "measure (\<lambda>(e, self, messages, iteration, w). nat (max_iterations self - iteration))") auto

declare run_loop.simps [simp del]

definition run :: "env \<Rightarrow> ReactAgent \<Rightarrow> ref \<Rightarrow> world \<Rightarrow> string option outcome \<times> world" where
  "run e self messages w = run_loop e self messages 0 w"

section \<open>\<^verbatim>\<open>chat_with_pure_tool.py\<close>\<close>

definition get_name_for_day_pure :: tool where
  "get_name_for_day_pure e date w =
     (case requests_get e (''https://svatkyapi.cz/api/day/'' @ format_value e date) w of
        (Inl x, w1) \<Rightarrow> (Inl x, w1)
      | (Inr response, w1) \<Rightarrow>
          if status_code response = 200 then
            (case json_result response of
               Inl x \<Rightarrow> (Inl x, w1)
             | Inr data \<Rightarrow>
                 (case py_get data ''name'' of
                    Inl x \<Rightarrow> (Inl x, w1)
                  | Inr nm \<Rightarrow> (Inr (JObj [(''date'', date), (''name'', nm)]), w1)))
          else (Inr (JObj [(''date'', date), (''name'', JStr ''Error fetching data'')]), w1))"

definition available_functions_pure :: "string \<rightharpoonup> tool" where
  "available_functions_pure = map_of [(''get_name_for_day'', get_name_for_day_pure)]"

text \<open>
  The assistant message of the pure-tool variant: no \<^verbatim>\<open>content\<close> key, one entry in
  \<^verbatim>\<open>tool_calls\<close>, its arguments serialized again from the decoded ones.
\<close>

definition pure_assistant_msg :: "env \<Rightarrow> string \<Rightarrow> string \<Rightarrow> json \<Rightarrow> message" where
  "pure_assistant_msg e tool_id fname function_args =
     \<lparr>role = ''assistant'', content = None,
      tool_calls = Some [\<lparr>call_id = tool_id, call_type = ''function'',
                          function_name = fname, function_arguments = json_dumps e function_args\<rparr>],
      tool_call_id = None, name = None\<rparr>"

definition get_completion_from_messages ::
  "env \<Rightarrow> ref \<Rightarrow> string \<Rightarrow> world \<Rightarrow> response_message outcome \<times> world" where
  "get_completion_from_messages e messages mdl w =
     (case create_completion e mdl messages w of
        (Inl x, w1) \<Rightarrow> (Raised x, w1)
      | (Inr response_message, w1) \<Rightarrow>
          (case resp_tool_calls response_message of
             Some (tool_call # others) \<Rightarrow>
               (let function_name = tc_name tool_call in
                case json_loads e (tc_arguments tool_call) of
                  Inl x \<Rightarrow> (Raised x, w1)
                | Inr function_args \<Rightarrow>
                    (let tool_id = tc_id tool_call in
                     case available_functions_pure function_name of
                       None \<Rightarrow> (Raised (KeyError function_name), w1)
                     | Some function_to_call \<Rightarrow>
                         (case call_kwargs function_name function_to_call e function_args w1 of
                            (Inl x, w2) \<Rightarrow> (Raised x, w2)
                          | (Inr function_response, w2) \<Rightarrow>
                              (let w3 = append_msg messages
                                          (pure_assistant_msg e tool_id function_name function_args) w2;
                                   w4 = append_msg messages
                                          (tool_msg e tool_id function_name function_response) w3
                               in case create_completion e mdl messages w4 of
                                    (Inl x, w5) \<Rightarrow> (Raised x, w5)
                                  | (Inr final_answer, w5) \<Rightarrow> (Returned final_answer, w5)))))
           | _ \<Rightarrow> (Returned response_message, w1)))"


section \<open>Observations on a run\<close>

text \<open>A tool touches neither the lists nor the two logs.\<close>

definition tool_frame :: "tool \<Rightarrow> bool" where
  "tool_frame f = (\<forall>e d w. store (snd (f e d w)) = store w
       \<and> gateway_log (snd (f e d w)) = gateway_log w
       \<and> exec_log (snd (f e d w)) = exec_log w)"


text \<open>
  The \<^verbatim>\<open>tool\<close> messages of the requests \<open>tcs\<close> whose capabilities returned \<open>resps\<close>,
  and the entries these calls leave in \<open>exec_log\<close> (\<open>vs\<close>: the bound arguments).
\<close>

definition tool_msgs :: "env \<Rightarrow> tool_call list \<Rightarrow> json list \<Rightarrow> message list" where
  "tool_msgs e tcs resps = map2 (\<lambda>tc resp. tool_msg e (tc_id tc) (tc_name tc) resp) tcs resps"

definition exec_entries :: "tool_call list \<Rightarrow> json list \<Rightarrow> json list \<Rightarrow> (string \<times> json \<times> (py_exn + json)) list" where
  "exec_entries tcs vs resps = zip (map tc_name tcs) (zip vs (map Inr resps))"


definition is_tool_message :: "message \<Rightarrow> bool" where
  "is_tool_message m = (role m = ''tool'')"

text \<open>A gateway result that is a response carrying tool calls.\<close>

fun requests_tools :: "py_exn + response_message \<Rightarrow> bool" where
  "requests_tools (Inl x) = False"
| "requests_tools (Inr resp) = truthy (resp_tool_calls resp)"

definition messages_due :: "world \<Rightarrow> nat" where
  "messages_due w = length (filter (\<lambda>g. \<not> isl g) (gateway_log w))
                  + length (filter (\<lambda>(n, v, x). \<not> isl x) (exec_log w))"


section \<open>Concrete collaborators\<close>

text \<open>
  Stand-ins for the gateway, the lookup service and the \<^verbatim>\<open>json\<close> module, on which the
  model is evaluated at concrete inputs.
\<close>

definition args_ok :: string where
  \<open>args_ok = ''{"date": "2024-10-28"}''\<close>

definition loads_stub :: "string \<Rightarrow> py_exn + json" where
  "loads_stub s =
     (if s = args_ok then Inr (JObj [(''date'', JStr ''2024-10-28'')])
      else if s = ''{}'' then Inr (JObj [])
      else Inl JSONDecodeError)"

fun dumps_stub :: "json \<Rightarrow> string" where
  "dumps_stub (JStr s) = ''<'' @ s @ ''>''"
| "dumps_stub (JObj kvs) =
     ''{'' @ concat (map (\<lambda>kv. fst kv @ '': '' @ dumps_stub (snd kv) @ '';'') kvs) @ ''}''"
| "dumps_stub (JList vs) = ''['' @ concat (map (\<lambda>v. dumps_stub v @ '';'') vs) @ '']''"
| "dumps_stub v = py_type_name v"

definition stub_env :: "(nat \<Rightarrow> response_message) \<Rightarrow> http_response \<Rightarrow> env" where
  "stub_env f h =
     \<lparr>llm = (\<lambda>n mdl msgs. Inr (f n)), http_get = (\<lambda>n url. Inr h),
      json_loads = loads_stub, json_dumps = dumps_stub, py_repr = dumps_stub\<rparr>"

definition http_404 :: http_response where
  "http_404 = \<lparr>status_code = 404, json_result = Inl JSONDecodeError\<rparr>"

definition http_200_list :: http_response where
  "http_200_list = \<lparr>status_code = 200, json_result = Inr (JList [])\<rparr>"

definition tool_request :: "string \<Rightarrow> string \<Rightarrow> string \<Rightarrow> tool_call" where
  "tool_request i n a = \<lparr>tc_id = i, tc_name = n, tc_arguments = a\<rparr>"

definition day_call :: "string \<Rightarrow> tool_call" where
  "day_call i = tool_request i ''get_name_for_day'' args_ok"

definition resp_tools :: "string option \<Rightarrow> tool_call list \<Rightarrow> response_message" where
  "resp_tools c tcs = \<lparr>resp_content = c, resp_tool_calls = Some tcs\<rparr>"

definition resp_text :: "string \<Rightarrow> response_message" where
  "resp_text s = \<lparr>resp_content = Some s, resp_tool_calls = None\<rparr>"

definition user_msg :: "string \<Rightarrow> message" where
  "user_msg s = \<lparr>role = ''user'', content = Some (Some s), tool_calls = None,
                 tool_call_id = None, name = None\<rparr>"

text \<open>A caller's list at address 0 holding one user message; every other list empty.\<close>

definition world0 :: world where
  "world0 = \<lparr>store = (\<lambda>r. if r = 0 then [user_msg ''Who has a name day on 2024-10-28?''] else []),
             gateway_log = [], http_calls = 0, exec_log = []\<rparr>"

definition week_call :: "string \<Rightarrow> tool_call" where
  "week_call i = tool_request i ''get_names_for_week'' args_ok"

definition always_day :: env where
  "always_day = stub_env (\<lambda>n. resp_tools None [day_call ''call_1'']) http_404"

definition says_limit :: env where
  "says_limit = stub_env (\<lambda>n. resp_text limit_text) http_404"

definition day_then_text :: env where
  "day_then_text =
     stub_env (\<lambda>n. if n = 0 then resp_tools None [day_call ''call_1''] else resp_text ''Lukas'') http_404"

definition text_only :: env where
  "text_only = stub_env (\<lambda>n. resp_text ''Lukas has a name day on 2024-10-28.'') http_404"

definition two_calls_then_more :: env where
  "two_calls_then_more =
     stub_env (\<lambda>n. if n = 0 then resp_tools (Some ''Let me look that up.'')
                                  [day_call ''call_1'', week_call ''call_2'']
                    else resp_tools None [day_call ''call_3'']) http_404"

definition unknown_tool :: env where
  "unknown_tool =
     stub_env (\<lambda>n. resp_tools None [tool_request ''call_1'' ''nonexistent_tool'' args_ok]) http_404"

definition second_call_bad_args :: env where
  "second_call_bad_args =
     stub_env (\<lambda>n. resp_tools None [day_call ''call_1'',
                                     tool_request ''call_2'' ''get_name_for_day'' ''{}'']) http_404"

definition three_day_calls :: env where
  "three_day_calls =
     stub_env (\<lambda>n. resp_tools None [day_call ''call_1'', day_call ''call_2'', day_call ''call_3''])
       http_404"

section \<open>Auxiliary facts\<close>

lemmas stub_defs = stub_env_def http_404_def http_200_list_def tool_request_def day_call_def
  resp_tools_def resp_text_def world0_def user_msg_def loads_stub_def args_ok_def

lemmas model_defs = run_def run_iteration_def create_completion_def exec_tool_call_def
  append_msg_def requests_get_def available_functions_def get_name_for_day_def
  get_all_info_about_day_def get_names_for_week_def ReactAgent_init_def Let_def
  assistant_tool_calls_msg_def tool_call_entry_def tool_msg_def final_msg_def
  get_completion_from_messages_def available_functions_pure_def get_name_for_day_pure_def
  pure_assistant_msg_def

lemma store_append_msg: "store (append_msg r m w) = (store w)(r := store w r @ [m])"
  and gateway_log_append_msg: "gateway_log (append_msg r m w) = gateway_log w"
  and http_calls_append_msg: "http_calls (append_msg r m w) = http_calls w"
  and exec_log_append_msg: "exec_log (append_msg r m w) = exec_log w"
  by (simp_all add: append_msg_def)

lemma get_name_for_day_frame: "tool_frame get_name_for_day"
  by (simp add: tool_frame_def get_name_for_day_def requests_get_def split: sum.splits)

lemma get_all_info_about_day_frame: "tool_frame get_all_info_about_day"
  by (simp add: tool_frame_def get_all_info_about_day_def requests_get_def split: sum.splits)

lemma get_names_for_week_frame: "tool_frame get_names_for_week"
  by (simp add: tool_frame_def get_names_for_week_def requests_get_def split: sum.splits)

lemma get_name_for_day_pure_frame: "tool_frame get_name_for_day_pure"
  by (simp add: tool_frame_def get_name_for_day_pure_def requests_get_def split: sum.splits)

lemma available_functions_frame: "available_functions n = Some f \<Longrightarrow> tool_frame f"
  by (auto simp: available_functions_def get_name_for_day_frame get_all_info_about_day_frame
        get_names_for_week_frame split: if_splits)

lemma available_functions_pure_frame: "available_functions_pure n = Some f \<Longrightarrow> tool_frame f"
  by (auto simp: available_functions_pure_def get_name_for_day_pure_frame split: if_splits)

lemma call_kwargs_date:
  "call_kwargs n f e (JObj [(''date'', v)]) w =
     (case f e v w of (r, w1) \<Rightarrow> (r, w1\<lparr>exec_log := exec_log w1 @ [(n, v, r)]\<rparr>))"
  by simp

lemma call_kwargs_other:
  "(\<And>v. a \<noteq> JObj [(''date'', v)]) \<Longrightarrow> call_kwargs n f e a w = (Inl TypeError, w)"
  by (cases "(n, f, e, a, w)" rule: call_kwargs.cases) auto

lemma call_kwargs_frame:
  assumes "tool_frame f" and "call_kwargs n f e a w = (r, w1)"
  shows "store w1 = store w \<and> gateway_log w1 = gateway_log w
    \<and> (case r of Inl x \<Rightarrow> exec_log w1 = exec_log w \<or> (\<exists>v. a = JObj [(''date'', v)] \<and> exec_log w1 = exec_log w @ [(n, v, r)])
        | Inr y \<Rightarrow> \<exists>v. a = JObj [(''date'', v)] \<and> exec_log w1 = exec_log w @ [(n, v, r)])"
proof (cases "\<exists>v. a = JObj [(''date'', v)]")
  case True
  then obtain v where a: "a = JObj [(''date'', v)]" by blast
  obtain r0 w0 where f: "f e v w = (r0, w0)" by (cases "f e v w")
  from assms(1) f have "store w0 = store w" "gateway_log w0 = gateway_log w" "exec_log w0 = exec_log w"
    unfolding tool_frame_def by (metis snd_conv)+
  with assms(2) a f show ?thesis by (auto split: sum.splits)
next
  case False
  then have "call_kwargs n f e a w = (Inl TypeError, w)" by (intro call_kwargs_other) blast
  with assms(2) show ?thesis by auto
qed


lemma exec_tool_call_ok:
  assumes "exec_tool_call e r tc w = (Inr u, w1)"
  shows "\<exists>v resp. json_loads e (tc_arguments tc) = Inr (JObj [(''date'', v)])
           \<and> available_functions (tc_name tc) \<noteq> None
           \<and> store w1 = (store w)(r := store w r @ [tool_msg e (tc_id tc) (tc_name tc) resp])
           \<and> exec_log w1 = exec_log w @ [(tc_name tc, v, Inr resp)]
           \<and> gateway_log w1 = gateway_log w"
proof -
  from assms obtain a where a: "json_loads e (tc_arguments tc) = Inr a"
    by (auto simp: exec_tool_call_def Let_def split: sum.splits)
  from assms a obtain f where f: "available_functions (tc_name tc) = Some f"
    by (auto simp: exec_tool_call_def Let_def split: option.splits)
  from assms a f obtain resp w0 where c: "call_kwargs (tc_name tc) f e a w = (Inr resp, w0)"
    and w1: "w1 = append_msg r (tool_msg e (tc_id tc) (tc_name tc) resp) w0"
    by (auto simp: exec_tool_call_def Let_def split: prod.splits sum.splits)
  from call_kwargs_frame [OF available_functions_frame [OF f] c]
  obtain v where "a = JObj [(''date'', v)]" "exec_log w0 = exec_log w @ [(tc_name tc, v, Inr resp)]"
    "store w0 = store w" "gateway_log w0 = gateway_log w" by auto
  with a w1 f show ?thesis by (auto simp: append_msg_def)
qed

lemma exec_tool_call_err:
  assumes "exec_tool_call e r tc w = (Inl x, w1)"
  shows "store w1 = store w \<and> gateway_log w1 = gateway_log w
    \<and> (exec_log w1 = exec_log w \<or> (\<exists>n v. exec_log w1 = exec_log w @ [(n, v, Inl x)]))"
  using assms
  by (auto simp: exec_tool_call_def Let_def split: sum.splits option.splits prod.splits
      dest!: call_kwargs_frame [OF available_functions_frame])

lemma exec_tool_calls_ok:
  "exec_tool_calls e r tcs w = (Inr u, w1) \<Longrightarrow>
     \<exists>vs resps. length vs = length tcs \<and> length resps = length tcs
       \<and> map (\<lambda>tc. json_loads e (tc_arguments tc)) tcs = map (\<lambda>v. Inr (JObj [(''date'', v)])) vs
       \<and> store w1 = (store w)(r := store w r @ tool_msgs e tcs resps)
       \<and> exec_log w1 = exec_log w @ exec_entries tcs vs resps
       \<and> gateway_log w1 = gateway_log w"
proof (induction tcs arbitrary: w)
  case Nil
  then show ?case by (simp add: tool_msgs_def exec_entries_def)
next
  case (Cons tc tcs)
  from Cons.prems obtain u0 w0 where h: "exec_tool_call e r tc w = (Inr u0, w0)"
    and t: "exec_tool_calls e r tcs w0 = (Inr u, w1)"
    by (auto split: prod.splits sum.splits)
  from exec_tool_call_ok [OF h] obtain v resp where
    hv: "json_loads e (tc_arguments tc) = Inr (JObj [(''date'', v)])"
    "store w0 = (store w)(r := store w r @ [tool_msg e (tc_id tc) (tc_name tc) resp])"
    "exec_log w0 = exec_log w @ [(tc_name tc, v, Inr resp)]"
    "gateway_log w0 = gateway_log w" by blast
  from Cons.IH [OF t] obtain vs resps where
    tv: "length vs = length tcs" "length resps = length tcs"
    "map (\<lambda>tc. json_loads e (tc_arguments tc)) tcs = map (\<lambda>v. Inr (JObj [(''date'', v)])) vs"
    "store w1 = (store w0)(r := store w0 r @ tool_msgs e tcs resps)"
    "exec_log w1 = exec_log w0 @ exec_entries tcs vs resps"
    "gateway_log w1 = gateway_log w0" by blast
  show ?case
    apply (rule exI [of _ "v # vs"], rule exI [of _ "resp # resps"])
    using hv tv by (simp add: tool_msgs_def exec_entries_def)
qed

lemma exec_tool_calls_any:
  "exec_tool_calls e r tcs w = (res, w1) \<Longrightarrow>
     \<exists>k vs resps extra. k \<le> length tcs \<and> length vs = k \<and> length resps = k
       \<and> (res = Inr () \<longrightarrow> k = length tcs \<and> extra = [])
       \<and> ((\<exists>x. res = Inl x) \<longrightarrow> k < length tcs)
       \<and> list_all (\<lambda>tc. available_functions (tc_name tc) \<noteq> None) (take k tcs)
       \<and> map (\<lambda>tc. json_loads e (tc_arguments tc)) (take k tcs) = map (\<lambda>v. Inr (JObj [(''date'', v)])) vs
       \<and> store w1 = (store w)(r := store w r @ tool_msgs e (take k tcs) resps)
       \<and> exec_log w1 = exec_log w @ exec_entries (take k tcs) vs resps @ extra
       \<and> (extra = [] \<or> (\<exists>n v x. extra = [(n, v, Inl x)]))
       \<and> gateway_log w1 = gateway_log w"
proof (induction tcs arbitrary: w)
  case Nil
  then show ?case by (auto simp add: tool_msgs_def exec_entries_def)
next
  case (Cons tc tcs)
  show ?case
  proof (cases "exec_tool_call e r tc w")
    case (Pair a w0)
    show ?thesis
    proof (cases a)
      case (Inl x)
      with Pair Cons.prems have rw: "res = Inl x" "w1 = w0" by auto
      from exec_tool_call_err [of e r tc w x w0] Pair Inl
      have st: "store w0 = store w" "gateway_log w0 = gateway_log w"
        and "exec_log w0 = exec_log w \<or> (\<exists>n v. exec_log w0 = exec_log w @ [(n, v, Inl x)])"
        by auto
      then obtain extra where "exec_log w0 = exec_log w @ extra"
        "extra = [] \<or> (\<exists>n v x. extra = [(n, v, Inl x)])" by auto
      with rw st show ?thesis
        by (intro exI [of _ 0] exI [of _ "[]"] exI [of _ extra]) (simp add: tool_msgs_def exec_entries_def)
    next
      case (Inr u0)
      with Pair Cons.prems have t: "exec_tool_calls e r tcs w0 = (res, w1)" by auto
      from exec_tool_call_ok [of e r tc w u0 w0] Pair Inr obtain v resp where
        hv: "store w0 = (store w)(r := store w r @ [tool_msg e (tc_id tc) (tc_name tc) resp])"
        "exec_log w0 = exec_log w @ [(tc_name tc, v, Inr resp)]"
        "gateway_log w0 = gateway_log w"
        "available_functions (tc_name tc) \<noteq> None"
        "json_loads e (tc_arguments tc) = Inr (JObj [(''date'', v)])" by blast
      from Cons.IH [OF t] obtain k vs resps extra where
        tv: "k \<le> length tcs" "length vs = k" "length resps = k"
        "res = Inr () \<longrightarrow> k = length tcs \<and> extra = []"
        "(\<exists>x. res = Inl x) \<longrightarrow> k < length tcs"
        "list_all (\<lambda>tc. available_functions (tc_name tc) \<noteq> None) (take k tcs)"
        "map (\<lambda>tc. json_loads e (tc_arguments tc)) (take k tcs) = map (\<lambda>v. Inr (JObj [(''date'', v)])) vs"
        "store w1 = (store w0)(r := store w0 r @ tool_msgs e (take k tcs) resps)"
        "exec_log w1 = exec_log w0 @ exec_entries (take k tcs) vs resps @ extra"
        "extra = [] \<or> (\<exists>n v x. extra = [(n, v, Inl x)])"
        "gateway_log w1 = gateway_log w0" by blast
      show ?thesis
        apply (rule exI [of _ "Suc k"], rule exI [of _ "v # vs"], rule exI [of _ "resp # resps"],
            rule exI [of _ extra])
        using hv tv by (simp add: tool_msgs_def exec_entries_def)
    qed
  qed
qed

subsection \<open>One pass through the loop body\<close>

lemma run_iteration_gateway_exn:
  "llm e (length (gateway_log w)) (model self) (store w r) = Inl x \<Longrightarrow>
   run_iteration e self r w = (Inl (Raised x), w\<lparr>gateway_log := gateway_log w @ [Inl x]\<rparr>)"
  by (simp add: run_iteration_def create_completion_def Let_def)

lemma run_iteration_text:
  "llm e (length (gateway_log w)) (model self) (store w r) = Inr resp \<Longrightarrow>
   \<not> truthy (resp_tool_calls resp) \<Longrightarrow>
   run_iteration e self r w =
     (Inl (Returned (resp_content resp)),
      append_msg r (final_msg (resp_content resp)) (w\<lparr>gateway_log := gateway_log w @ [Inr resp]\<rparr>))"
  by (simp add: run_iteration_def create_completion_def Let_def)

lemma run_iteration_tools:
  "llm e (length (gateway_log w)) (model self) (store w r) = Inr resp \<Longrightarrow>
   truthy (resp_tool_calls resp) \<Longrightarrow>
   run_iteration e self r w =
     (case exec_tool_calls e r (calls_of (resp_tool_calls resp))
             (append_msg r (assistant_tool_calls_msg resp) (w\<lparr>gateway_log := gateway_log w @ [Inr resp]\<rparr>)) of
        (Inl x, w2) \<Rightarrow> (Inl (Raised x), w2)
      | (Inr u, w2) \<Rightarrow> (Inr (), w2))"
  by (simp add: run_iteration_def create_completion_def Let_def)

lemma filter_exec_entries:
  "length vs = length tcs \<Longrightarrow> length resps = length tcs \<Longrightarrow>
   length (filter (\<lambda>(n, v, x). \<not> isl x) (exec_entries tcs vs resps)) = length tcs"
proof -
  assume a: "length vs = length tcs" "length resps = length tcs"
  have "\<forall>p \<in> set (exec_entries tcs vs resps). (\<lambda>(n, v, x). \<not> isl x) p"
    by (auto simp: exec_entries_def dest!: set_zip_rightD)
  then have "filter (\<lambda>(n, v, x). \<not> isl x) (exec_entries tcs vs resps) = exec_entries tcs vs resps"
    by (simp only: filter_True)
  with a show ?thesis by (simp add: exec_entries_def)
qed

lemma length_tool_msgs: "length resps = length tcs \<Longrightarrow> length (tool_msgs e tcs resps) = length tcs"
  by (simp add: tool_msgs_def)

lemma run_iteration_tools_summary:
  assumes "llm e (length (gateway_log w)) (model self) (store w r) = Inr resp"
    and "truthy (resp_tool_calls resp)"
    and "run_iteration e self r w = (res, w1)"
  shows "\<exists>k vs resps extra. k \<le> length (calls_of (resp_tool_calls resp))
      \<and> length vs = k \<and> length resps = k
      \<and> (res = Inr () \<and> k = length (calls_of (resp_tool_calls resp)) \<and> extra = []
           \<or> (\<exists>x. res = Inl (Raised x)) \<and> k < length (calls_of (resp_tool_calls resp)))
      \<and> list_all (\<lambda>tc. available_functions (tc_name tc) \<noteq> None)
           (take k (calls_of (resp_tool_calls resp)))
      \<and> map (\<lambda>tc. json_loads e (tc_arguments tc)) (take k (calls_of (resp_tool_calls resp))) = map (\<lambda>v. Inr (JObj [(''date'', v)])) vs
      \<and> store w1 = (store w)(r := store w r @ assistant_tool_calls_msg resp
                        # tool_msgs e (take k (calls_of (resp_tool_calls resp))) resps)
      \<and> exec_log w1 = exec_log w @ exec_entries (take k (calls_of (resp_tool_calls resp))) vs resps @ extra
      \<and> (extra = [] \<or> (\<exists>n v x. extra = [(n, v, Inl x)]))
      \<and> gateway_log w1 = gateway_log w @ [Inr resp]"
proof -
  define w0 where "w0 = append_msg r (assistant_tool_calls_msg resp) (w\<lparr>gateway_log := gateway_log w @ [Inr resp]\<rparr>)"
  define tcs where "tcs = calls_of (resp_tool_calls resp)"
  obtain a w2 where x: "exec_tool_calls e r tcs w0 = (a, w2)" by (cases "exec_tool_calls e r tcs w0")
  from run_iteration_tools [OF assms(1,2)] assms(3) x
  have res: "res = (case a of Inl x \<Rightarrow> Inl (Raised x) | Inr u \<Rightarrow> Inr ())" and w1: "w1 = w2"
    by (auto simp: w0_def tcs_def split: sum.splits)
  from exec_tool_calls_any [OF x] obtain k vs resps extra where
    tv: "k \<le> length tcs" "length vs = k" "length resps = k"
    "a = Inr () \<longrightarrow> k = length tcs \<and> extra = []"
    "(\<exists>x. a = Inl x) \<longrightarrow> k < length tcs"
    "list_all (\<lambda>tc. available_functions (tc_name tc) \<noteq> None) (take k tcs)"
    "map (\<lambda>tc. json_loads e (tc_arguments tc)) (take k tcs) = map (\<lambda>v. Inr (JObj [(''date'', v)])) vs"
    "store w2 = (store w0)(r := store w0 r @ tool_msgs e (take k tcs) resps)"
    "exec_log w2 = exec_log w0 @ exec_entries (take k tcs) vs resps @ extra"
    "extra = [] \<or> (\<exists>n v x. extra = [(n, v, Inl x)])"
    "gateway_log w2 = gateway_log w0" by blast
  have c: "res = Inr () \<and> k = length tcs \<and> extra = [] \<or> (\<exists>x. res = Inl (Raised x)) \<and> k < length tcs"
    using res tv(4,5) by (cases a) auto
  show ?thesis
    unfolding tcs_def [symmetric]
    apply (rule exI [of _ k], rule exI [of _ vs], rule exI [of _ resps], rule exI [of _ extra])
    using tv c w1 by (simp add: w0_def append_msg_def)
qed

lemma run_iteration_summary:
  assumes "run_iteration e self r w = (res, w1)"
  shows "\<exists>g ms. gateway_log w1 = gateway_log w @ [g]
      \<and> g = llm e (length (gateway_log w)) (model self) (store w r)
      \<and> store w1 = (store w)(r := store w r @ ms)
      \<and> length ms + messages_due w = messages_due w1
      \<and> (res = Inr () \<longrightarrow> requests_tools g)
      \<and> (\<forall>v. res = Inl (Returned v) \<longrightarrow>
            (\<exists>resp. g = Inr resp \<and> \<not> truthy (resp_tool_calls resp) \<and> v = resp_content resp
               \<and> ms = [final_msg v] \<and> exec_log w1 = exec_log w))"
proof (cases "llm e (length (gateway_log w)) (model self) (store w r)")
  case (Inl x)
  from run_iteration_gateway_exn [OF Inl] assms
  have "res = Inl (Raised x)" "w1 = w\<lparr>gateway_log := gateway_log w @ [Inl x]\<rparr>" by auto
  with Inl show ?thesis
    by (intro exI [of _ "Inl x"] exI [of _ "[]"]) (simp add: messages_due_def)
next
  case (Inr resp)
  show ?thesis
  proof (cases "truthy (resp_tool_calls resp)")
    case False
    from run_iteration_text [OF Inr False] assms
    have "res = Inl (Returned (resp_content resp))"
      "w1 = append_msg r (final_msg (resp_content resp)) (w\<lparr>gateway_log := gateway_log w @ [Inr resp]\<rparr>)"
      by auto
    with Inr False show ?thesis
      by (intro exI [of _ "Inr resp"] exI [of _ "[final_msg (resp_content resp)]"])
        (simp add: messages_due_def append_msg_def)
  next
    case True
    define w0 where "w0 = append_msg r (assistant_tool_calls_msg resp) (w\<lparr>gateway_log := gateway_log w @ [Inr resp]\<rparr>)"
    define tcs where "tcs = calls_of (resp_tool_calls resp)"
    obtain a w2 where x: "exec_tool_calls e r tcs w0 = (a, w2)" by (cases "exec_tool_calls e r tcs w0")
    from run_iteration_tools [OF Inr True] assms x
    have res: "res = (case a of Inl x \<Rightarrow> Inl (Raised x) | Inr u \<Rightarrow> Inr ())" and w1: "w1 = w2"
      by (auto simp: w0_def tcs_def split: sum.splits)
    from exec_tool_calls_any [OF x] obtain k vs resps extra where
      tv: "k \<le> length tcs" "length vs = k" "length resps = k"
      "store w2 = (store w0)(r := store w0 r @ tool_msgs e (take k tcs) resps)"
      "exec_log w2 = exec_log w0 @ exec_entries (take k tcs) vs resps @ extra"
      "extra = [] \<or> (\<exists>n v x. extra = [(n, v, Inl x)])"
      "gateway_log w2 = gateway_log w0" by blast
    have f1: "length (filter (\<lambda>(n, v, x). \<not> isl x) (exec_entries (take k tcs) vs resps)) = k"
      using filter_exec_entries [of vs "take k tcs" resps] tv by simp
    have f2: "filter (\<lambda>(n, v, x). \<not> isl x) extra = []" using tv(6) by auto
    have l: "length (tool_msgs e (take k tcs) resps) = k"
      using length_tool_msgs [of resps "take k tcs" e] tv by simp
    show ?thesis
      apply (rule exI [of _ "Inr resp"])
      apply (rule exI [of _ "assistant_tool_calls_msg resp # tool_msgs e (take k tcs) resps"])
      using Inr True tv w1 res f1 f2 l
      by (auto simp: w0_def append_msg_def messages_due_def split: sum.splits)
  qed
qed


subsection \<open>The whole loop\<close>

lemma run_loop_exit:
  "\<not> iteration < max_iterations self \<Longrightarrow>
   run_loop e self r iteration w = (Returned (Some limit_text), w)"
  by (subst run_loop.simps) simp

lemma run_loop_step:
  "iteration < max_iterations self \<Longrightarrow>
   run_loop e self r iteration w =
     (case run_iteration e self r w of
        (Inl res, w1) \<Rightarrow> (res, w1)
      | (Inr u, w1) \<Rightarrow> run_loop e self r (iteration + 1) w1)"
  by (subst run_loop.simps) simp

lemma run_loop_summary:
  "run_loop e self r i w = (res, w') \<Longrightarrow>
   \<exists>gs ms. gateway_log w' = gateway_log w @ gs \<and> length gs \<le> nat (max_iterations self - i)
     \<and> store w' = (store w)(r := store w r @ ms)
     \<and> length ms + messages_due w = messages_due w'
     \<and> ((\<exists>x. res = Raised x)
        \<or> (\<exists>resp. gs \<noteq> [] \<and> last gs = Inr resp \<and> \<not> truthy (resp_tool_calls resp)
              \<and> list_all requests_tools (butlast gs)
              \<and> res = Returned (resp_content resp)
              \<and> ms \<noteq> [] \<and> last ms = final_msg (resp_content resp))
        \<or> (res = Returned (Some limit_text) \<and> length gs = nat (max_iterations self - i)
              \<and> list_all requests_tools gs))"
proof (induction e self r i w arbitrary: res w' rule: run_loop.induct)
  case (1 e self r i w)
  show ?case
  proof (cases "i < max_iterations self")
    case False
    with "1.prems" run_loop_exit [of i self e r w]
    have "res = Returned (Some limit_text)" "w' = w" by auto
    with False show ?thesis
      by (intro exI [of _ "[]"]) simp
  next
    case True
    obtain a w1 where it: "run_iteration e self r w = (a, w1)"
      by (cases "run_iteration e self r w")
    from run_iteration_summary [OF it] obtain g ms where
      s: "gateway_log w1 = gateway_log w @ [g]"
      "store w1 = (store w)(r := store w r @ ms)"
      "length ms + messages_due w = messages_due w1"
      "a = Inr () \<longrightarrow> requests_tools g"
      "\<forall>v. a = Inl (Returned v) \<longrightarrow>
            (\<exists>resp. g = Inr resp \<and> \<not> truthy (resp_tool_calls resp) \<and> v = resp_content resp
               \<and> ms = [final_msg v] \<and> exec_log w1 = exec_log w)"
      by blast
    show ?thesis
    proof (cases a)
      case (Inl res0)
      with it True "1.prems" run_loop_step [of i self e r w]
      have rw: "res = res0" "w' = w1" by auto
      show ?thesis
      proof (cases res0)
        case (Raised x)
        with rw s True show ?thesis
          by (intro exI [of _ "[g]"] exI [of _ ms]) simp
      next
        case (Returned v)
        with s(5) Inl obtain resp where "g = Inr resp" "\<not> truthy (resp_tool_calls resp)"
          "v = resp_content resp" "ms = [final_msg v]" by blast
        with rw s True Returned show ?thesis
          by (intro exI [of _ "[g]"] exI [of _ ms]) simp
      qed
    next
      case (Inr u)
      with it True "1.prems" run_loop_step [of i self e r w]
      have rl: "run_loop e self r (i + 1) w1 = (res, w')" by auto
      from Inr s(4) have rt: "requests_tools g" by simp
      from "1.IH" [OF True it [symmetric] Inr rl] obtain gs ms' where
        t: "gateway_log w' = gateway_log w1 @ gs" "length gs \<le> nat (max_iterations self - (i + 1))"
        "store w' = (store w1)(r := store w1 r @ ms')"
        "length ms' + messages_due w1 = messages_due w'"
        "(\<exists>x. res = Raised x)
        \<or> (\<exists>resp. gs \<noteq> [] \<and> last gs = Inr resp \<and> \<not> truthy (resp_tool_calls resp)
              \<and> list_all requests_tools (butlast gs)
              \<and> res = Returned (resp_content resp)
              \<and> ms' \<noteq> [] \<and> last ms' = final_msg (resp_content resp))
        \<or> (res = Returned (Some limit_text) \<and> length gs = nat (max_iterations self - (i + 1))
              \<and> list_all requests_tools gs)" by blast
      have n: "Suc (nat (max_iterations self - (i + 1))) = nat (max_iterations self - i)"
        using True by simp
      show ?thesis
        apply (rule exI [of _ "g # gs"], rule exI [of _ "ms @ ms'"])
        using s(1-3) t rt n by auto
    qed
  qed
qed

lemma list_all_last: "list_all P xs \<Longrightarrow> xs \<noteq> [] \<Longrightarrow> P (last xs)"
  by (simp add: list_all_iff)

lemma list_all_notin: "list_all P xs \<Longrightarrow> \<not> P x \<Longrightarrow> x \<notin> set xs"
  by (auto simp: list_all_iff)

subsection \<open>The pure-tool variant\<close>

lemma get_completion_gateway_exn:
  "llm e (length (gateway_log w)) mdl (store w r) = Inl x \<Longrightarrow>
   get_completion_from_messages e r mdl w = (Raised x, w\<lparr>gateway_log := gateway_log w @ [Inl x]\<rparr>)"
  by (simp add: get_completion_from_messages_def create_completion_def Let_def)

lemma get_completion_no_calls:
  "llm e (length (gateway_log w)) mdl (store w r) = Inr resp \<Longrightarrow>
   \<not> truthy (resp_tool_calls resp) \<Longrightarrow>
   get_completion_from_messages e r mdl w = (Returned resp, w\<lparr>gateway_log := gateway_log w @ [Inr resp]\<rparr>)"
  by (cases "resp_tool_calls resp"; cases "the (resp_tool_calls resp)")
     (simp_all add: get_completion_from_messages_def create_completion_def Let_def)

lemma get_completion_first_call:
  "llm e (length (gateway_log w)) mdl (store w r) = Inr resp \<Longrightarrow>
   resp_tool_calls resp = Some (tc # others) \<Longrightarrow>
   get_completion_from_messages e r mdl w =
     (case json_loads e (tc_arguments tc) of
        Inl x \<Rightarrow> (Raised x, w\<lparr>gateway_log := gateway_log w @ [Inr resp]\<rparr>)
      | Inr function_args \<Rightarrow>
          (case available_functions_pure (tc_name tc) of
             None \<Rightarrow> (Raised (KeyError (tc_name tc)), w\<lparr>gateway_log := gateway_log w @ [Inr resp]\<rparr>)
           | Some function_to_call \<Rightarrow>
               (case call_kwargs (tc_name tc) function_to_call e function_args
                        (w\<lparr>gateway_log := gateway_log w @ [Inr resp]\<rparr>) of
                  (Inl x, w2) \<Rightarrow> (Raised x, w2)
                | (Inr function_response, w2) \<Rightarrow>
                    (case create_completion e mdl r
                            (append_msg r (tool_msg e (tc_id tc) (tc_name tc) function_response)
                              (append_msg r (pure_assistant_msg e (tc_id tc) (tc_name tc) function_args) w2)) of
                       (Inl x, w5) \<Rightarrow> (Raised x, w5)
                     | (Inr final_answer, w5) \<Rightarrow> (Returned final_answer, w5)))))"
  by (simp add: get_completion_from_messages_def create_completion_def Let_def
      split: sum.split option.split prod.split)


lemma get_completion_summary:
  assumes "get_completion_from_messages e r mdl w = (res, w')"
  shows "(gateway_log w' = gateway_log w @ [llm e (length (gateway_log w)) mdl (store w r)]
          \<and> store w' = store w
          \<and> (exec_log w' = exec_log w
              \<or> (\<exists>resp tc others v x. llm e (length (gateway_log w)) mdl (store w r) = Inr resp
                    \<and> resp_tool_calls resp = Some (tc # others)
                    \<and> json_loads e (tc_arguments tc) = Inr (JObj [(''date'', v)])
                    \<and> exec_log w' = exec_log w @ [(tc_name tc, v, Inl x)])))
       \<or> (\<exists>resp tc others v fr g2.
             llm e (length (gateway_log w)) mdl (store w r) = Inr resp
             \<and> resp_tool_calls resp = Some (tc # others)
             \<and> json_loads e (tc_arguments tc) = Inr (JObj [(''date'', v)])
             \<and> exec_log w' = exec_log w @ [(tc_name tc, v, Inr fr)]
             \<and> store w' = (store w)(r := store w r @
                   [pure_assistant_msg e (tc_id tc) (tc_name tc) (JObj [(''date'', v)]),
                    tool_msg e (tc_id tc) (tc_name tc) fr])
             \<and> g2 = llm e (Suc (length (gateway_log w))) mdl (store w' r)
             \<and> gateway_log w' = gateway_log w @ [Inr resp, g2]
             \<and> res = (case g2 of Inl x \<Rightarrow> Raised x | Inr final_answer \<Rightarrow> Returned final_answer))"
    (is "?A \<or> ?B")
proof (cases "llm e (length (gateway_log w)) mdl (store w r)")
  case (Inl x)
  from get_completion_gateway_exn [OF Inl] assms
  have "w' = w\<lparr>gateway_log := gateway_log w @ [Inl x]\<rparr>" by simp
  with Inl have ?A by simp
  then show ?thesis ..
next
  case (Inr resp)
  define w1 where "w1 = w\<lparr>gateway_log := gateway_log w @ [Inr resp]\<rparr>"
  have w1: "store w1 = store w" "exec_log w1 = exec_log w" "gateway_log w1 = gateway_log w @ [Inr resp]"
    by (simp_all add: w1_def)
  show ?thesis
  proof (cases "truthy (resp_tool_calls resp)")
    case False
    from get_completion_no_calls [OF Inr False] assms
    have "w' = w1" by (simp add: w1_def)
    with Inr w1 have ?A by simp
    then show ?thesis ..
  next
    case True
    then obtain tc others where tcs: "resp_tool_calls resp = Some (tc # others)"
      by (cases "resp_tool_calls resp"; cases "the (resp_tool_calls resp)") auto
    note u = get_completion_first_call [OF Inr tcs, folded w1_def]
    show ?thesis
    proof (cases "json_loads e (tc_arguments tc)")
      case (Inl x)
      with u assms have "w' = w1" by simp
      with Inr w1 have ?A by simp
      then show ?thesis ..
    next
      case a: (Inr args)
      show ?thesis
      proof (cases "available_functions_pure (tc_name tc)")
        case None
        with u a assms have "w' = w1" by simp
        with Inr w1 have ?A by simp
        then show ?thesis ..
      next
        case (Some f)
        obtain cr w2 where c: "call_kwargs (tc_name tc) f e args w1 = (cr, w2)"
          by (cases "call_kwargs (tc_name tc) f e args w1")
        note fr = call_kwargs_frame [OF available_functions_pure_frame [OF Some] c]
        show ?thesis
        proof (cases cr)
          case (Inl x)
          with u a Some c assms have rw: "res = Raised x" "w' = w2" by simp_all
          from fr Inl have "store w2 = store w1" "gateway_log w2 = gateway_log w1"
            "exec_log w2 = exec_log w1
              \<or> (\<exists>v. args = JObj [(''date'', v)] \<and> exec_log w2 = exec_log w1 @ [(tc_name tc, v, Inl x)])"
            by simp_all
          with rw w1 Inr tcs a have ?A by auto
          then show ?thesis ..
        next
          case r: (Inr function_response)
          from fr r obtain v where v: "args = JObj [(''date'', v)]"
            "exec_log w2 = exec_log w1 @ [(tc_name tc, v, Inr function_response)]"
            "store w2 = store w1" "gateway_log w2 = gateway_log w1" by auto
          define w4 where "w4 = append_msg r (tool_msg e (tc_id tc) (tc_name tc) function_response)
                     (append_msg r (pure_assistant_msg e (tc_id tc) (tc_name tc) args) w2)"
          define g2 where "g2 = llm e (length (gateway_log w4)) mdl (store w4 r)"
          from u a Some c r assms
          have "(case create_completion e mdl r w4 of
                       (Inl x, w5) \<Rightarrow> (Raised x, w5)
                     | (Inr final_answer, w5) \<Rightarrow> (Returned final_answer, w5)) = (res, w')"
            by (simp add: w4_def)
          then have res: "res = (case g2 of Inl x \<Rightarrow> Raised x | Inr final_answer \<Rightarrow> Returned final_answer)"
            and w': "w' = w4\<lparr>gateway_log := gateway_log w4 @ [g2]\<rparr>"
            by (cases g2; simp add: create_completion_def Let_def g2_def [symmetric]; fail)+
          have l4: "gateway_log w4 = gateway_log w @ [Inr resp]"
            using v(4) w1 by (simp add: w4_def append_msg_def)
          have s4: "store w4 = (store w)(r := store w r @
                   [pure_assistant_msg e (tc_id tc) (tc_name tc) (JObj [(''date'', v)]),
                    tool_msg e (tc_id tc) (tc_name tc) function_response])"
            using v(1,3) w1 by (simp add: w4_def append_msg_def)
          have e4: "exec_log w4 = exec_log w @ [(tc_name tc, v, Inr function_response)]"
            using v(2) w1 by (simp add: w4_def append_msg_def)
          have sw: "store w' = store w4" and ew: "exec_log w' = exec_log w4"
            and gw: "gateway_log w' = gateway_log w4 @ [g2]"
            by (simp_all add: w')
          have g2': "g2 = llm e (Suc (length (gateway_log w))) mdl (store w' r)"
            unfolding sw g2_def l4 by simp
          have ?B
            apply (rule exI [of _ resp], rule exI [of _ tc], rule exI [of _ others], rule exI [of _ v],
                rule exI [of _ function_response], rule exI [of _ g2])
            apply (intro conjI)
            subgoal by (rule Inr)
            subgoal by (rule tcs)
            subgoal using a v(1) by simp
            subgoal unfolding ew e4 ..
            subgoal unfolding sw s4 ..
            subgoal by (rule g2')
            subgoal unfolding gw l4 by simp
            subgoal by (rule res)
            done
          then show ?thesis ..
        qed
      qed
    qed
  qed
qed

section \<open>The lookup functions\<close>

text \<open>
  Claim C7. For every date string, when the lookup service answers with a status other
  than 200, \<^verbatim>\<open>get_name_for_day\<close> (in both files) returns the dictionary
  \<^verbatim>\<open>{"date": date, "name": "Error fetching data"}\<close> and raises nothing; a request for
  the tool then completes in the loop, and its \<^verbatim>\<open>tool\<close> message carries the
  serialization of that dictionary.
\<close>

theorem get_name_for_day_non_200:
  assumes "http_get e (http_calls w) (''https://svatkyapi.cz/api/day/'' @ d) = Inr response"
    and "status_code response \<noteq> 200"
  shows "fst (get_name_for_day e (JStr d) w)
           = Inr (JObj [(''date'', JStr d), (''name'', JStr ''Error fetching data'')])
       \<and> fst (get_name_for_day_pure e (JStr d) w)
           = Inr (JObj [(''date'', JStr d), (''name'', JStr ''Error fetching data'')])
       \<and> (\<forall>tc r. tc_name tc = ''get_name_for_day''
              \<and> json_loads e (tc_arguments tc) = Inr (JObj [(''date'', JStr d)]) \<longrightarrow>
            (\<exists>w1. exec_tool_call e r tc w = (Inr (), w1)
               \<and> store w1 r = store w r @
                   [\<lparr>role = ''tool'',
                     content = Some (Some (json_dumps e
                        (JObj [(''date'', JStr d), (''name'', JStr ''Error fetching data'')]))),
                     tool_calls = None, tool_call_id = Some (tc_id tc),
                     name = Some ''get_name_for_day''\<rparr>]))"
proof -
  have a: "get_name_for_day e (JStr d) w =
      (Inr (JObj [(''date'', JStr d), (''name'', JStr ''Error fetching data'')]),
       w\<lparr>http_calls := Suc (http_calls w)\<rparr>)"
    using assms by (simp add: get_name_for_day_def requests_get_def)
  have b: "get_name_for_day_pure e (JStr d) w =
      (Inr (JObj [(''date'', JStr d), (''name'', JStr ''Error fetching data'')]),
       w\<lparr>http_calls := Suc (http_calls w)\<rparr>)"
    using assms by (simp add: get_name_for_day_pure_def requests_get_def)
  have c: "available_functions ''get_name_for_day'' = Some get_name_for_day"
    by (simp add: available_functions_def)
  show ?thesis
    using a b c by (simp add: exec_tool_call_def Let_def append_msg_def tool_msg_def)
qed

theorem get_name_for_day_non_200_witness:
  "http_get (stub_env (\<lambda>n. resp_text ''ok'') http_404) (http_calls world0)
      (''https://svatkyapi.cz/api/day/'' @ ''2024-10-28'') = Inr http_404
   \<and> status_code http_404 \<noteq> 200
   \<and> tc_name (day_call ''call_1'') = ''get_name_for_day''
   \<and> json_loads (stub_env (\<lambda>n. resp_text ''ok'') http_404) (tc_arguments (day_call ''call_1''))
        = Inr (JObj [(''date'', JStr ''2024-10-28'')])
   \<and> fst (get_name_for_day (stub_env (\<lambda>n. resp_text ''ok'') http_404) (JStr ''2024-10-28'') world0)
        = Inr (JObj [(''date'', JStr ''2024-10-28''), (''name'', JStr ''Error fetching data'')])
   \<and> fst (exec_tool_call (stub_env (\<lambda>n. resp_text ''ok'') http_404) 0 (day_call ''call_1'') world0)
        = Inr ()"
proof -
  have h1: "http_get (stub_env (\<lambda>n. resp_text ''ok'') http_404) (http_calls world0)
      (''https://svatkyapi.cz/api/day/'' @ ''2024-10-28'') = Inr http_404"
    by (simp add: stub_env_def)
  have h2: "status_code http_404 \<noteq> 200" by (simp add: http_404_def)
  have h3: "tc_name (day_call ''call_1'') = ''get_name_for_day''
     \<and> json_loads (stub_env (\<lambda>n. resp_text ''ok'') http_404) (tc_arguments (day_call ''call_1''))
        = Inr (JObj [(''date'', JStr ''2024-10-28'')])"
    by (simp add: stub_defs)
  from get_name_for_day_non_200 [OF h1 h2] h3
  have "fst (get_name_for_day (stub_env (\<lambda>n. resp_text ''ok'') http_404) (JStr ''2024-10-28'') world0)
        = Inr (JObj [(''date'', JStr ''2024-10-28''), (''name'', JStr ''Error fetching data'')])"
    and "\<exists>w1. exec_tool_call (stub_env (\<lambda>n. resp_text ''ok'') http_404) 0 (day_call ''call_1'') world0 = (Inr (), w1)"
    by blast+
  with h1 h2 h3 show ?thesis by auto
qed

lemma get_names_for_week_200:
  assumes "http_get e (http_calls w) (''https://svatkyapi.cz/api/week/'' @ format_value e date) = Inr response"
    and "status_code response = 200"
  shows "\<exists>x. get_names_for_week e date w = (Inl x, w\<lparr>http_calls := Suc (http_calls w)\<rparr>)
           \<and> (\<forall>days. json_result response = Inr (JList days) \<longrightarrow> x = AttributeError ''list'' ''map'')"
  using assms
  by (cases "json_result response") (auto simp add: get_names_for_week_def requests_get_def)

lemma get_names_for_week_returns:
  assumes "fst (get_names_for_week e date w) = Inr v"
  shows "\<exists>response. http_get e (http_calls w) (''https://svatkyapi.cz/api/week/'' @ format_value e date) = Inr response
     \<and> status_code response \<noteq> 200
     \<and> v = JObj [(''date'', date), (''weekData'', JStr ''Error fetching data'')]"
  using assms
  by (auto simp add: get_names_for_week_def requests_get_def split: sum.splits if_splits)

lemma exec_week_raises:
  assumes "http_get e (http_calls w) (''https://svatkyapi.cz/api/week/'' @ format_value e date) = Inr response"
    and "status_code response = 200"
    and "tc_name tc = ''get_names_for_week''"
    and "json_loads e (tc_arguments tc) = Inr (JObj [(''date'', date)])"
  shows "\<exists>x w1. exec_tool_call e r tc w = (Inl x, w1)"
proof -
  from get_names_for_week_200 [OF assms(1,2)] obtain x where
    "get_names_for_week e date w = (Inl x, w\<lparr>http_calls := Suc (http_calls w)\<rparr>)" by blast
  moreover have "available_functions ''get_names_for_week'' = Some get_names_for_week"
    by (simp add: available_functions_def)
  ultimately show ?thesis using assms(3,4)
    by (simp add: exec_tool_call_def Let_def)
qed

text \<open>
  Claim C8. When the week service answers 200, \<^verbatim>\<open>get_names_for_week\<close> raises: for a
  body that decodes to a list, the \<^verbatim>\<open>AttributeError\<close> of the missing attribute
  \<^verbatim>\<open>map\<close>. A request for the tool then makes \<^verbatim>\<open>run\<close> raise. The function returns
  a value only from its non-200 branch.
\<close>

theorem get_names_for_week_raises_on_200:
  "(\<forall>response. http_get e (http_calls w) (''https://svatkyapi.cz/api/week/'' @ d) = Inr response
        \<and> status_code response = 200 \<longrightarrow>
      (\<exists>x. fst (get_names_for_week e (JStr d) w) = Inl x)
      \<and> (\<forall>days. json_result response = Inr (JList days) \<longrightarrow>
            fst (get_names_for_week e (JStr d) w) = Inl (AttributeError ''list'' ''map''))
      \<and> (\<forall>self r i resp tc others.
            i < max_iterations self
            \<and> llm e (length (gateway_log w)) (model self) (store w r) = Inr resp
            \<and> resp_tool_calls resp = Some (tc # others)
            \<and> tc_name tc = ''get_names_for_week''
            \<and> json_loads e (tc_arguments tc) = Inr (JObj [(''date'', JStr d)]) \<longrightarrow>
            (\<exists>x w1. run_loop e self r i w = (Raised x, w1))))
   \<and> (\<forall>v. fst (get_names_for_week e (JStr d) w) = Inr v \<longrightarrow>
        (\<exists>response. http_get e (http_calls w) (''https://svatkyapi.cz/api/week/'' @ d) = Inr response
           \<and> status_code response \<noteq> 200
           \<and> v = JObj [(''date'', JStr d), (''weekData'', JStr ''Error fetching data'')]))"
proof (intro conjI allI impI)
  fix response
  assume a: "http_get e (http_calls w) (''https://svatkyapi.cz/api/week/'' @ d) = Inr response
        \<and> status_code response = 200"
  then have a': "http_get e (http_calls w) (''https://svatkyapi.cz/api/week/'' @ format_value e (JStr d)) = Inr response"
    "status_code response = 200" by simp_all
  from get_names_for_week_200 [OF a'] 
  show "\<exists>x. fst (get_names_for_week e (JStr d) w) = Inl x" by auto
  {
    fix days assume "json_result response = Inr (JList days)"
    with get_names_for_week_200 [OF a']
    show "fst (get_names_for_week e (JStr d) w) = Inl (AttributeError ''list'' ''map'')" by auto
  }
  {
    fix self :: ReactAgent and r i resp tc others
    assume b: "i < max_iterations self
            \<and> llm e (length (gateway_log w)) (model self) (store w r) = Inr resp
            \<and> resp_tool_calls resp = Some (tc # others)
            \<and> tc_name tc = ''get_names_for_week''
            \<and> json_loads e (tc_arguments tc) = Inr (JObj [(''date'', JStr d)])"
    define w0 where "w0 = append_msg r (assistant_tool_calls_msg resp) (w\<lparr>gateway_log := gateway_log w @ [Inr resp]\<rparr>)"
    have "http_calls w0 = http_calls w" by (simp add: w0_def append_msg_def)
    with a' have "http_get e (http_calls w0) (''https://svatkyapi.cz/api/week/'' @ format_value e (JStr d)) = Inr response"
      by simp
    from exec_week_raises [OF this a'(2), of tc r] b obtain x w1 where
      "exec_tool_call e r tc w0 = (Inl x, w1)" by blast
    with b have "run_iteration e self r w = (Inl (Raised x), w1)"
      by (simp add: run_iteration_tools w0_def)
    with b have "run_loop e self r i w = (Raised x, w1)"
      by (simp add: run_loop_step)
    then show "\<exists>x w1. run_loop e self r i w = (Raised x, w1)" by blast
  }
next
  fix v assume "fst (get_names_for_week e (JStr d) w) = Inr v"
  from get_names_for_week_returns [OF this]
  show "\<exists>response. http_get e (http_calls w) (''https://svatkyapi.cz/api/week/'' @ d) = Inr response
           \<and> status_code response \<noteq> 200
           \<and> v = JObj [(''date'', JStr d), (''weekData'', JStr ''Error fetching data'')]"
    by simp
qed

theorem get_names_for_week_raises_on_200_witness:
  "http_get (stub_env (\<lambda>n. resp_tools None [week_call ''call_1'']) http_200_list) (http_calls world0)
      (''https://svatkyapi.cz/api/week/'' @ ''2024-10-28'') = Inr http_200_list
   \<and> status_code http_200_list = 200
   \<and> json_result http_200_list = Inr (JList [])
   \<and> fst (get_names_for_week (stub_env (\<lambda>n. resp_tools None [week_call ''call_1'']) http_200_list)
        (JStr ''2024-10-28'') world0) = Inl (AttributeError ''list'' ''map'')
   \<and> (\<exists>x. fst (run_loop (stub_env (\<lambda>n. resp_tools None [week_call ''call_1'']) http_200_list)
               (ReactAgent_init ''gpt-4o'') 0 0 world0) = Raised x)
   \<and> fst (get_names_for_week (stub_env (\<lambda>n. resp_tools None [week_call ''call_1'']) http_404)
        (JStr ''2024-10-28'') world0)
       = Inr (JObj [(''date'', JStr ''2024-10-28''), (''weekData'', JStr ''Error fetching data'')])
   \<and> status_code http_404 \<noteq> 200"
proof -
  let ?e = "stub_env (\<lambda>n. resp_tools None [week_call ''call_1'']) http_200_list"
  let ?a = "ReactAgent_init ''gpt-4o''"
  have h1: "http_get ?e (http_calls world0) (''https://svatkyapi.cz/api/week/'' @ ''2024-10-28'') = Inr http_200_list
     \<and> status_code http_200_list = 200"
    by (simp add: stub_env_def http_200_list_def)
  have h2: "json_result http_200_list = Inr (JList [])" by (simp add: http_200_list_def)
  have h3: "0 < max_iterations ?a
            \<and> llm ?e (length (gateway_log world0)) (model ?a) (store world0 0) = Inr (resp_tools None [week_call ''call_1''])
            \<and> resp_tool_calls (resp_tools None [week_call ''call_1'']) = Some (week_call ''call_1'' # [])
            \<and> tc_name (week_call ''call_1'') = ''get_names_for_week''
            \<and> json_loads ?e (tc_arguments (week_call ''call_1'')) = Inr (JObj [(''date'', JStr ''2024-10-28'')])"
    by (simp add: stub_defs week_call_def ReactAgent_init_def)
  note t = get_names_for_week_raises_on_200 [of ?e world0 "''2024-10-28''"]
  from t h1 h2 have c1: "fst (get_names_for_week ?e (JStr ''2024-10-28'') world0) = Inl (AttributeError ''list'' ''map'')"
    by blast
  from t h1 h3 have c2: "\<exists>x w1. run_loop ?e ?a 0 0 world0 = (Raised x, w1)"
    by blast
  have c3: "fst (get_names_for_week (stub_env (\<lambda>n. resp_tools None [week_call ''call_1'']) http_404)
        (JStr ''2024-10-28'') world0)
       = Inr (JObj [(''date'', JStr ''2024-10-28''), (''weekData'', JStr ''Error fetching data'')])"
    by (simp add: get_names_for_week_def requests_get_def stub_defs)
  have c4: "status_code http_404 \<noteq> 200" by (simp add: http_404_def)
  from h1 h2 c1 c2 c3 c4 show ?thesis by auto
qed

section \<open>The loop of \<^verbatim>\<open>ReactAgent.run\<close>\<close>

text \<open>
  Claim C1, as amended. \<^verbatim>\<open>run\<close> is a total function: the loop is defined by
  well-founded recursion on \<open>max_iterations - iteration\<close>. It makes at most
  \<open>max_iterations\<close> gateway calls, 10 for an agent built by the constructor. When every
  response of the run carried tool calls and nothing was raised, the bound was reached and
  the value returned is the fixed string
  \<^verbatim>\<open>"Error: Maximum iterations reached without getting a final answer."\<close>, a plain
  return value of the type of an answer.
\<close>

theorem run_bounded:
  "run e self r w = (res, w') \<Longrightarrow>
     max_iterations (ReactAgent_init mdl) = 10
     \<and> (\<exists>gs. gateway_log w' = gateway_log w @ gs
           \<and> length gs \<le> nat (max_iterations self)
           \<and> (list_all requests_tools gs \<and> (\<forall>x. res \<noteq> Raised x) \<longrightarrow>
                length gs = nat (max_iterations self)
                \<and> res = Returned (Some ''Error: Maximum iterations reached without getting a final answer.'')))"
proof -
  assume "run e self r w = (res, w')"
  then have "run_loop e self r 0 w = (res, w')" by (simp add: run_def)
  from run_loop_summary [OF this] obtain gs where
    g: "gateway_log w' = gateway_log w @ gs" "length gs \<le> nat (max_iterations self)"
    and c: "(\<exists>x. res = Raised x)
        \<or> (\<exists>resp. gs \<noteq> [] \<and> last gs = Inr resp \<and> \<not> truthy (resp_tool_calls resp))
        \<or> (res = Returned (Some limit_text) \<and> length gs = nat (max_iterations self))"
    by auto
  have "length gs = nat (max_iterations self) \<and> res = Returned (Some limit_text)"
    if a: "list_all requests_tools gs" "\<forall>x. res \<noteq> Raised x"
  proof -
    have "\<not> (\<exists>resp. gs \<noteq> [] \<and> last gs = Inr resp \<and> \<not> truthy (resp_tool_calls resp))"
      using list_all_last [OF a(1)] by auto
    with c a(2) show ?thesis by blast
  qed
  with g show ?thesis
    by (auto simp: ReactAgent_init_def limit_text_def)
qed

theorem run_bounded_witness:
  "fst (run always_day (ReactAgent_init ''gpt-4o'') 0 world0)
     = Returned (Some ''Error: Maximum iterations reached without getting a final answer.'')
   \<and> length (gateway_log (snd (run always_day (ReactAgent_init ''gpt-4o'') 0 world0))) = 10
   \<and> list_all requests_tools (gateway_log (snd (run always_day (ReactAgent_init ''gpt-4o'') 0 world0)))"
proof -
  let ?run = "run always_day (ReactAgent_init ''gpt-4o'') 0 world0"
  have nr: "\<forall>x. fst ?run \<noteq> Raised x"
    by (simp add: always_day_def stub_defs model_defs run_loop.simps)
  have la: "list_all requests_tools (gateway_log (snd ?run))"
    by (simp add: always_day_def stub_defs model_defs run_loop.simps)
  have w0: "gateway_log world0 = []" by (simp add: world0_def)
  from run_bounded [of always_day "ReactAgent_init ''gpt-4o''" 0 world0 "fst ?run" "snd ?run" "''gpt-4o''"]
  obtain gs where "gateway_log (snd ?run) = gateway_log world0 @ gs"
    "list_all requests_tools gs \<and> (\<forall>x. fst ?run \<noteq> Raised x) \<longrightarrow>
       length gs = nat (max_iterations (ReactAgent_init ''gpt-4o''))
       \<and> fst ?run = Returned (Some ''Error: Maximum iterations reached without getting a final answer.'')"
    by auto
  with w0 la nr show ?thesis by (simp add: ReactAgent_init_def)
qed

text \<open>
  The claim as stated fails: the value returned at the bound is not distinguishable from
  an answer. A run that exhausts its ten iterations on tool requests and a run whose first
  response is the text of that message return the same value.
\<close>

theorem limit_result_is_a_plain_string:
  "fst (run always_day (ReactAgent_init ''gpt-4o'') 0 world0)
     = fst (run says_limit (ReactAgent_init ''gpt-4o'') 0 world0)
   \<and> length (gateway_log (snd (run always_day (ReactAgent_init ''gpt-4o'') 0 world0))) = 10
   \<and> list_all requests_tools (gateway_log (snd (run always_day (ReactAgent_init ''gpt-4o'') 0 world0)))
   \<and> gateway_log (snd (run says_limit (ReactAgent_init ''gpt-4o'') 0 world0))
       = [Inr \<lparr>resp_content = Some limit_text, resp_tool_calls = None\<rparr>]
   \<and> last (store (snd (run says_limit (ReactAgent_init ''gpt-4o'') 0 world0)) 0)
       = final_msg (Some limit_text)"
  by (simp add: always_day_def says_limit_def stub_defs model_defs run_loop.simps)

text \<open>
  Claim C4. A response without tool calls makes \<^verbatim>\<open>run\<close> append the message
  \<^verbatim>\<open>{"role": "assistant", "content": text}\<close> and return the text, at whichever
  iteration it arrives. On the first call this leaves one gateway call made and no tool
  executed. It is the only \<^verbatim>\<open>return\<close> inside the loop: a run that returns a value
  either returns the content of a last response without tool calls, or left the loop at
  the bound after \<open>max_iterations\<close> responses that all carried tool calls.
\<close>

theorem run_text_only_exit:
  "(\<forall>resp. i < max_iterations self
       \<and> llm e (length (gateway_log w)) (model self) (store w r) = Inr resp
       \<and> \<not> truthy (resp_tool_calls resp) \<longrightarrow>
      run_loop e self r i w =
        (Returned (resp_content resp),
         w\<lparr>store := (store w)(r := store w r @
               [\<lparr>role = ''assistant'', content = Some (resp_content resp), tool_calls = None,
                 tool_call_id = None, name = None\<rparr>]),
           gateway_log := gateway_log w @ [Inr resp]\<rparr>))
   \<and> (\<forall>resp res w'. 0 < max_iterations self
       \<and> llm e (length (gateway_log w)) (model self) (store w r) = Inr resp
       \<and> \<not> truthy (resp_tool_calls resp)
       \<and> run e self r w = (res, w') \<longrightarrow>
      res = Returned (resp_content resp)
      \<and> length (gateway_log w') = length (gateway_log w) + 1
      \<and> exec_log w' = exec_log w \<and> http_calls w' = http_calls w)
   \<and> (\<forall>v w'. run_loop e self r i w = (Returned v, w') \<longrightarrow>
        (\<exists>resp. gateway_log w' \<noteq> [] \<and> last (gateway_log w') = Inr resp
            \<and> \<not> truthy (resp_tool_calls resp) \<and> v = resp_content resp
            \<and> store w' r \<noteq> [] \<and> last (store w' r) = final_msg v)
        \<or> (v = Some limit_text
            \<and> length (gateway_log w') = length (gateway_log w) + nat (max_iterations self - i)
            \<and> list_all requests_tools (drop (length (gateway_log w)) (gateway_log w'))))"
proof (intro conjI)
  show "\<forall>resp. i < max_iterations self
       \<and> llm e (length (gateway_log w)) (model self) (store w r) = Inr resp
       \<and> \<not> truthy (resp_tool_calls resp) \<longrightarrow>
      run_loop e self r i w =
        (Returned (resp_content resp),
         w\<lparr>store := (store w)(r := store w r @
               [\<lparr>role = ''assistant'', content = Some (resp_content resp), tool_calls = None,
                 tool_call_id = None, name = None\<rparr>]),
           gateway_log := gateway_log w @ [Inr resp]\<rparr>)"
    by (simp add: run_loop_step run_iteration_text append_msg_def final_msg_def)
next
  show "\<forall>resp res w'. 0 < max_iterations self
       \<and> llm e (length (gateway_log w)) (model self) (store w r) = Inr resp
       \<and> \<not> truthy (resp_tool_calls resp)
       \<and> run e self r w = (res, w') \<longrightarrow>
      res = Returned (resp_content resp)
      \<and> length (gateway_log w') = length (gateway_log w) + 1
      \<and> exec_log w' = exec_log w \<and> http_calls w' = http_calls w"
  proof (intro allI impI)
    fix resp res w'
    assume a: "0 < max_iterations self
       \<and> llm e (length (gateway_log w)) (model self) (store w r) = Inr resp
       \<and> \<not> truthy (resp_tool_calls resp)
       \<and> run e self r w = (res, w')"
    then have "run_loop e self r 0 w =
       (Returned (resp_content resp),
        append_msg r (final_msg (resp_content resp)) (w\<lparr>gateway_log := gateway_log w @ [Inr resp]\<rparr>))"
      by (simp add: run_loop_step run_iteration_text)
    with a show "res = Returned (resp_content resp)
      \<and> length (gateway_log w') = length (gateway_log w) + 1
      \<and> exec_log w' = exec_log w \<and> http_calls w' = http_calls w"
      by (auto simp add: run_def append_msg_def)
  qed
next
  show "\<forall>v w'. run_loop e self r i w = (Returned v, w') \<longrightarrow>
        (\<exists>resp. gateway_log w' \<noteq> [] \<and> last (gateway_log w') = Inr resp
            \<and> \<not> truthy (resp_tool_calls resp) \<and> v = resp_content resp
            \<and> store w' r \<noteq> [] \<and> last (store w' r) = final_msg v)
        \<or> (v = Some limit_text
            \<and> length (gateway_log w') = length (gateway_log w) + nat (max_iterations self - i)
            \<and> list_all requests_tools (drop (length (gateway_log w)) (gateway_log w')))"
  proof (intro allI impI)
    fix v w'
    assume "run_loop e self r i w = (Returned v, w')"
    from run_loop_summary [OF this] obtain gs ms where
      s: "gateway_log w' = gateway_log w @ gs" "store w' = (store w)(r := store w r @ ms)"
      and c: "(\<exists>resp. gs \<noteq> [] \<and> last gs = Inr resp \<and> \<not> truthy (resp_tool_calls resp)
                \<and> Returned v = Returned (resp_content resp)
                \<and> ms \<noteq> [] \<and> last ms = final_msg (resp_content resp))
          \<or> (Returned v = Returned (Some limit_text) \<and> length gs = nat (max_iterations self - i)
                \<and> list_all requests_tools gs)"
      by auto
    from c s show "(\<exists>resp. gateway_log w' \<noteq> [] \<and> last (gateway_log w') = Inr resp
            \<and> \<not> truthy (resp_tool_calls resp) \<and> v = resp_content resp
            \<and> store w' r \<noteq> [] \<and> last (store w' r) = final_msg v)
        \<or> (v = Some limit_text
            \<and> length (gateway_log w') = length (gateway_log w) + nat (max_iterations self - i)
            \<and> list_all requests_tools (drop (length (gateway_log w)) (gateway_log w')))"
      by auto
  qed
qed

theorem run_text_only_exit_witness:
  "0 < max_iterations (ReactAgent_init ''gpt-4o'')
   \<and> llm text_only (length (gateway_log world0)) (model (ReactAgent_init ''gpt-4o'')) (store world0 0)
        = Inr (resp_text ''Lukas has a name day on 2024-10-28.'')
   \<and> \<not> truthy (resp_tool_calls (resp_text ''Lukas has a name day on 2024-10-28.''))
   \<and> fst (run text_only (ReactAgent_init ''gpt-4o'') 0 world0)
        = Returned (Some ''Lukas has a name day on 2024-10-28.'')
   \<and> length (gateway_log (snd (run text_only (ReactAgent_init ''gpt-4o'') 0 world0))) = 1
   \<and> exec_log (snd (run text_only (ReactAgent_init ''gpt-4o'') 0 world0)) = []"
proof -
  let ?a = "ReactAgent_init ''gpt-4o''"
  let ?resp = "resp_text ''Lukas has a name day on 2024-10-28.''"
  have h: "0 < max_iterations ?a
       \<and> llm text_only (length (gateway_log world0)) (model ?a) (store world0 0) = Inr ?resp
       \<and> \<not> truthy (resp_tool_calls ?resp)"
    by (simp add: text_only_def stub_defs ReactAgent_init_def)
  have p: "run text_only ?a 0 world0 = (fst (run text_only ?a 0 world0), snd (run text_only ?a 0 world0))"
    by simp
  from run_text_only_exit [of 0 ?a text_only world0 0]
  have "\<forall>resp res w'. 0 < max_iterations ?a
       \<and> llm text_only (length (gateway_log world0)) (model ?a) (store world0 0) = Inr resp
       \<and> \<not> truthy (resp_tool_calls resp)
       \<and> run text_only ?a 0 world0 = (res, w') \<longrightarrow>
      res = Returned (resp_content resp)
      \<and> length (gateway_log w') = length (gateway_log world0) + 1
      \<and> exec_log w' = exec_log world0 \<and> http_calls w' = http_calls world0"
    by blast
  with h p have "fst (run text_only ?a 0 world0) = Returned (resp_content ?resp)
      \<and> length (gateway_log (snd (run text_only ?a 0 world0))) = length (gateway_log world0) + 1
      \<and> exec_log (snd (run text_only ?a 0 world0)) = exec_log world0"
    by blast
  with h show ?thesis by (simp add: world0_def resp_text_def)
qed

section \<open>The transcript\<close>

text \<open>
  Claim C6. The transcript only grows at its end: the list \<^verbatim>\<open>messages\<close> before any
  step (one append, one tool request, the \<^verbatim>\<open>for\<close> loop, one pass of the
  \<^verbatim>\<open>while\<close> loop, the rest of the run from any iteration, the whole run, the whole
  of \<^verbatim>\<open>get_completion_from_messages\<close>) is a prefix of the list after it.
\<close>

theorem transcript_append_only:
  "prefix (store w r) (store (append_msg r m w) r)
   \<and> prefix (store w r) (store (snd (exec_tool_call e r tc w)) r)
   \<and> prefix (store w r) (store (snd (exec_tool_calls e r tcs w)) r)
   \<and> prefix (store w r) (store (snd (run_iteration e self r w)) r)
   \<and> prefix (store w r) (store (snd (run_loop e self r i w)) r)
   \<and> prefix (store w r) (store (snd (run e self r w)) r)
   \<and> prefix (store w r) (store (snd (get_completion_from_messages e r mdl w)) r)"
proof (intro conjI)
  show "prefix (store w r) (store (append_msg r m w) r)"
    by (simp add: append_msg_def)
  show "prefix (store w r) (store (snd (exec_tool_call e r tc w)) r)"
  proof (cases "exec_tool_call e r tc w")
    case (Pair a w1)
    then show ?thesis
      using exec_tool_call_ok [of e r tc w _ w1] exec_tool_call_err [of e r tc w _ w1]
      by (cases a) auto
  qed
  show "prefix (store w r) (store (snd (exec_tool_calls e r tcs w)) r)"
  proof (cases "exec_tool_calls e r tcs w")
    case (Pair a w1)
    from exec_tool_calls_any [OF this] show ?thesis using Pair by auto
  qed
  show "prefix (store w r) (store (snd (run_iteration e self r w)) r)"
  proof (cases "run_iteration e self r w")
    case (Pair a w1)
    from run_iteration_summary [OF this] show ?thesis using Pair by auto
  qed
  show l: "prefix (store w r) (store (snd (run_loop e self r i w)) r)" for i
  proof (cases "run_loop e self r i w")
    case (Pair a w1)
    from run_loop_summary [OF this] show ?thesis using Pair by auto
  qed
  show "prefix (store w r) (store (snd (run e self r w)) r)"
    unfolding run_def by (rule l)
  show "prefix (store w r) (store (snd (get_completion_from_messages e r mdl w)) r)"
  proof (cases "get_completion_from_messages e r mdl w")
    case (Pair a w1)
    from get_completion_summary [OF this] show ?thesis using Pair by auto
  qed
qed

text \<open>
  Claim C10. \<^verbatim>\<open>run\<close> appends to the list object it was given: after the run, whether
  it returned an answer, returned at the bound or raised, the store differs from the one
  before only at the address \<open>r\<close> passed in, whose list is the old one followed by the
  appended messages, one for every response received and one for every tool call that
  returned. After an answer the last of them is the final assistant message.
\<close>

theorem run_appends_to_callers_list:
  "run e self r w = (res, w') \<Longrightarrow>
     \<exists>ms. store w' = (store w)(r := store w r @ ms)
        \<and> length ms + messages_due w = messages_due w'
        \<and> (\<forall>v. res = Returned v \<longrightarrow> (ms \<noteq> [] \<and> last ms = final_msg v) \<or> v = Some limit_text)"
proof -
  assume "run e self r w = (res, w')"
  then have "run_loop e self r 0 w = (res, w')" by (simp add: run_def)
  from run_loop_summary [OF this] obtain gs ms where
    m: "store w' = (store w)(r := store w r @ ms)" "length ms + messages_due w = messages_due w'"
    and c: "(\<exists>x. res = Raised x)
        \<or> (\<exists>resp. gs \<noteq> [] \<and> last gs = Inr resp \<and> \<not> truthy (resp_tool_calls resp)
              \<and> list_all requests_tools (butlast gs)
              \<and> res = Returned (resp_content resp)
              \<and> ms \<noteq> [] \<and> last ms = final_msg (resp_content resp))
        \<or> (res = Returned (Some limit_text) \<and> length gs = nat (max_iterations self - 0)
              \<and> list_all requests_tools gs)" by blast
  from c have "\<forall>v. res = Returned v \<longrightarrow> (ms \<noteq> [] \<and> last ms = final_msg v) \<or> v = Some limit_text"
    by auto
  with m show ?thesis by blast
qed

theorem run_appends_to_callers_list_witness:
  "fst (run day_then_text (ReactAgent_init ''gpt-4o'') 0 world0) = Returned (Some ''Lukas'')
   \<and> store (snd (run day_then_text (ReactAgent_init ''gpt-4o'') 0 world0)) 0
       = store world0 0 @
         [assistant_tool_calls_msg (resp_tools None [day_call ''call_1'']),
          tool_msg day_then_text ''call_1'' ''get_name_for_day''
            (JObj [(''date'', JStr ''2024-10-28''), (''name'', JStr ''Error fetching data'')]),
          final_msg (Some ''Lukas'')]
   \<and> store (snd (run day_then_text (ReactAgent_init ''gpt-4o'') 0 world0)) 1 = store world0 1
   \<and> messages_due (snd (run day_then_text (ReactAgent_init ''gpt-4o'') 0 world0)) = 3 + messages_due world0"
proof -
  let ?run = "run day_then_text (ReactAgent_init ''gpt-4o'') 0 world0"
  have r: "fst ?run = Returned (Some ''Lukas'')"
    by (simp add: day_then_text_def stub_defs model_defs run_loop.simps)
  have s0: "store (snd ?run) 0 = store world0 0 @
         [assistant_tool_calls_msg (resp_tools None [day_call ''call_1'']),
          tool_msg day_then_text ''call_1'' ''get_name_for_day''
            (JObj [(''date'', JStr ''2024-10-28''), (''name'', JStr ''Error fetching data'')]),
          final_msg (Some ''Lukas'')]"
    by (simp add: day_then_text_def stub_defs model_defs run_loop.simps)
  from run_appends_to_callers_list [of day_then_text "ReactAgent_init ''gpt-4o''" 0 world0 "fst ?run" "snd ?run"]
  obtain ms where m: "store (snd ?run) = (store world0)(0 := store world0 0 @ ms)"
    "length ms + messages_due world0 = messages_due (snd ?run)"
    by auto
  from m(1) have s1: "store (snd ?run) 1 = store world0 1" by simp
  from m(1) s0 have "length ms = 3" by simp
  with m(2) r s0 s1 show ?thesis by simp
qed

section \<open>Tool requests of one turn\<close>

text \<open>
  Claim C2, as amended. A request whose tool name is not a key of
  \<^verbatim>\<open>available_functions\<close> aborts the run: \<^verbatim>\<open>run\<close> raises, no gateway call follows
  the response that carried the request, and the transcript gains the assistant message
  and the \<^verbatim>\<open>tool\<close> messages of requests that came before it in the turn, none for the
  request itself. When the request is the first of its turn and its arguments decode, the
  exception is the \<^verbatim>\<open>KeyError\<close> of the lookup \<^verbatim>\<open>available_functions[function_name]\<close>.
\<close>

theorem unregistered_tool_raises:
  assumes "i < max_iterations self"
    and "llm e (length (gateway_log w)) (model self) (store w r) = Inr resp"
    and "resp_tool_calls resp = Some tcs"
    and "tc \<in> set tcs"
    and "available_functions (tc_name tc) = None"
  shows "\<exists>x w1 k resps. run_loop e self r i w = (Raised x, w1)
           \<and> gateway_log w1 = gateway_log w @ [Inr resp]
           \<and> k < length tcs \<and> length resps = k \<and> tc \<notin> set (take k tcs)
           \<and> store w1 = (store w)(r := store w r @ assistant_tool_calls_msg resp
                             # tool_msgs e (take k tcs) resps)
           \<and> (\<forall>others args. tcs = tc # others \<and> json_loads e (tc_arguments tc) = Inr args \<longrightarrow>
                 x = KeyError (tc_name tc) \<and> k = 0)"
proof -
  from assms(3,4) have t: "truthy (resp_tool_calls resp)" by (cases tcs) auto
  from assms(3) have c: "calls_of (resp_tool_calls resp) = tcs" by simp
  obtain res w1 where it: "run_iteration e self r w = (res, w1)"
    by (cases "run_iteration e self r w")
  from run_iteration_tools_summary [OF assms(2) t it, unfolded c]
  obtain k resps where
    s: "length resps = k"
    "res = Inr () \<and> k = length tcs \<or> (\<exists>x. res = Inl (Raised x)) \<and> k < length tcs"
    "list_all (\<lambda>tc. available_functions (tc_name tc) \<noteq> None) (take k tcs)"
    "store w1 = (store w)(r := store w r @ assistant_tool_calls_msg resp # tool_msgs e (take k tcs) resps)"
    "gateway_log w1 = gateway_log w @ [Inr resp]" by blast
  from list_all_notin [OF s(3), of tc] assms(5) have n: "tc \<notin> set (take k tcs)" by simp
  with assms(4) have "k \<noteq> length tcs" by auto
  with s(2) obtain x where x: "res = Inl (Raised x)" and k: "k < length tcs" by blast
  from x it assms(1) have rl: "run_loop e self r i w = (Raised x, w1)"
    by (simp add: run_loop_step)
  have first: "x = KeyError (tc_name tc) \<and> k = 0"
    if f: "tcs = tc # others" "json_loads e (tc_arguments tc) = Inr args" for others args
  proof -
    from n f(1) have "k = 0" by (cases k) auto
    moreover have "exec_tool_call e r tc w0 = (Inl (KeyError (tc_name tc)), w0)" for w0
      using f(2) assms(5) by (simp add: exec_tool_call_def Let_def)
    then have "run_iteration e self r w =
        (Inl (Raised (KeyError (tc_name tc))),
         append_msg r (assistant_tool_calls_msg resp) (w\<lparr>gateway_log := gateway_log w @ [Inr resp]\<rparr>))"
      using run_iteration_tools [OF assms(2) t] c f(1) by simp
    with it x have "x = KeyError (tc_name tc)" by simp
    ultimately show ?thesis by simp
  qed
  show ?thesis
    apply (rule exI [of _ x], rule exI [of _ w1], rule exI [of _ k], rule exI [of _ resps])
    using rl s(1,4,5) k n first by blast
qed

theorem unregistered_tool_raises_witness:
  "(0::int) < max_iterations (ReactAgent_init ''gpt-4o'')
   \<and> llm unknown_tool (length (gateway_log world0)) (model (ReactAgent_init ''gpt-4o'')) (store world0 0)
       = Inr (resp_tools None [tool_request ''call_1'' ''nonexistent_tool'' args_ok])
   \<and> available_functions (tc_name (tool_request ''call_1'' ''nonexistent_tool'' args_ok)) = None
   \<and> fst (run_loop unknown_tool (ReactAgent_init ''gpt-4o'') 0 0 world0) = Raised (KeyError ''nonexistent_tool'')"
proof -
  let ?a = "ReactAgent_init ''gpt-4o''"
  let ?tc = "tool_request ''call_1'' ''nonexistent_tool'' args_ok"
  have h1: "0 < max_iterations ?a" by (simp add: ReactAgent_init_def)
  have h2: "llm unknown_tool (length (gateway_log world0)) (model ?a) (store world0 0)
       = Inr (resp_tools None [?tc])" by (simp add: unknown_tool_def stub_env_def)
  have h3: "resp_tool_calls (resp_tools None [?tc]) = Some [?tc]" by (simp add: resp_tools_def)
  have h4: "?tc \<in> set [?tc]" by simp
  have h5: "available_functions (tc_name ?tc) = None"
    by (simp add: available_functions_def tool_request_def)
  have h6: "json_loads unknown_tool (tc_arguments ?tc) = Inr (JObj [(''date'', JStr ''2024-10-28'')])"
    by (simp add: unknown_tool_def stub_defs)
  from unregistered_tool_raises [OF h1 h2 h3 h4 h5] h6
  obtain x w1 where "run_loop unknown_tool ?a 0 0 world0 = (Raised x, w1)"
    "x = KeyError (tc_name ?tc)" by blast
  with h1 h2 h5 show ?thesis by (simp add: tool_request_def)
qed

text \<open>
  The claim as stated fails: for a gateway that requests \<^verbatim>\<open>nonexistent_tool\<close>, the run
  ends in \<^verbatim>\<open>KeyError\<close> after one gateway call, and only the assistant message was
  appended.
\<close>

theorem unregistered_tool_aborts_run:
  "fst (run unknown_tool (ReactAgent_init ''gpt-4o'') 0 world0) = Raised (KeyError ''nonexistent_tool'')
   \<and> store (snd (run unknown_tool (ReactAgent_init ''gpt-4o'') 0 world0)) 0
       = store world0 0 @
           [assistant_tool_calls_msg
              (resp_tools None [tool_request ''call_1'' ''nonexistent_tool'' args_ok])]
   \<and> length (gateway_log (snd (run unknown_tool (ReactAgent_init ''gpt-4o'') 0 world0))) = 1"
  by (simp add: unknown_tool_def stub_defs model_defs run_loop.simps)

text \<open>
  Claim C3, as amended. For a turn carrying \<open>N \<ge> 1\<close> requests, the loop executes them in
  list order, each with its decoded \<^verbatim>\<open>date\<close> argument, and appends after the assistant
  message one \<^verbatim>\<open>tool\<close> message per executed request, in the same order, with the
  request's \<^verbatim>\<open>id\<close>, its name and \<^verbatim>\<open>json.dumps\<close> of the value the capability returned.
  When the turn completes, that is all \<open>N\<close> requests. When a request raises (arguments that
  do not decode, an unregistered name, arguments other than the single key \<^verbatim>\<open>date\<close>, an
  exception inside the tool), the run raises, and the messages are those of the \<open>k < N\<close>
  requests before it.
\<close>

theorem tool_calls_executed_in_order:
  assumes "llm e (length (gateway_log w)) (model self) (store w r) = Inr resp"
    and "resp_tool_calls resp = Some tcs" and "tcs \<noteq> []"
    and "run_iteration e self r w = (res, w1)"
  shows "\<exists>k vs resps extra.
       k \<le> length tcs \<and> length vs = k \<and> length resps = k
     \<and> map (\<lambda>tc. json_loads e (tc_arguments tc)) (take k tcs)
          = map (\<lambda>v. Inr (JObj [(''date'', v)])) vs
     \<and> exec_log w1 = exec_log w @ zip (map tc_name (take k tcs)) (zip vs (map Inr resps)) @ extra
     \<and> store w1 r = store w r @ assistant_tool_calls_msg resp #
          map2 (\<lambda>tc function_response.
                  \<lparr>role = ''tool'', content = Some (Some (json_dumps e function_response)),
                   tool_calls = None, tool_call_id = Some (tc_id tc), name = Some (tc_name tc)\<rparr>)
               (take k tcs) resps
     \<and> (res = Inr () \<and> k = length tcs \<and> extra = []
          \<or> (\<exists>x. res = Inl (Raised x)) \<and> k < length tcs
             \<and> (extra = [] \<or> (\<exists>n v x. extra = [(n, v, Inl x)])))"
proof -
  from assms(2,3) have t: "truthy (resp_tool_calls resp)" by (cases tcs) auto
  from assms(2) have c: "calls_of (resp_tool_calls resp) = tcs" by simp
  from run_iteration_tools_summary [OF assms(1) t assms(4), unfolded c]
  obtain k vs resps extra where
    s: "k \<le> length tcs" "length vs = k" "length resps = k"
    "res = Inr () \<and> k = length tcs \<and> extra = [] \<or> (\<exists>x. res = Inl (Raised x)) \<and> k < length tcs"
    "map (\<lambda>tc. json_loads e (tc_arguments tc)) (take k tcs) = map (\<lambda>v. Inr (JObj [(''date'', v)])) vs"
    "store w1 = (store w)(r := store w r @ assistant_tool_calls_msg resp # tool_msgs e (take k tcs) resps)"
    "exec_log w1 = exec_log w @ exec_entries (take k tcs) vs resps @ extra"
    "extra = [] \<or> (\<exists>n v x. extra = [(n, v, Inl x)])" by blast
  show ?thesis
    apply (rule exI [of _ k], rule exI [of _ vs], rule exI [of _ resps], rule exI [of _ extra])
    using s by (auto simp: tool_msgs_def exec_entries_def tool_msg_def)
qed

theorem tool_calls_executed_in_order_witness:
  "llm three_day_calls (length (gateway_log world0)) (model (ReactAgent_init ''gpt-4o'')) (store world0 0)
     = Inr (resp_tools None [day_call ''call_1'', day_call ''call_2'', day_call ''call_3''])
   \<and> fst (run_iteration three_day_calls (ReactAgent_init ''gpt-4o'') 0 world0) = Inr ()
   \<and> store (snd (run_iteration three_day_calls (ReactAgent_init ''gpt-4o'') 0 world0)) 0
      = store world0 0 @
        [assistant_tool_calls_msg
           (resp_tools None [day_call ''call_1'', day_call ''call_2'', day_call ''call_3'']),
         tool_msg three_day_calls ''call_1'' ''get_name_for_day''
           (JObj [(''date'', JStr ''2024-10-28''), (''name'', JStr ''Error fetching data'')]),
         tool_msg three_day_calls ''call_2'' ''get_name_for_day''
           (JObj [(''date'', JStr ''2024-10-28''), (''name'', JStr ''Error fetching data'')]),
         tool_msg three_day_calls ''call_3'' ''get_name_for_day''
           (JObj [(''date'', JStr ''2024-10-28''), (''name'', JStr ''Error fetching data'')])]
   \<and> map fst (exec_log (snd (run_iteration three_day_calls (ReactAgent_init ''gpt-4o'') 0 world0)))
      = [''get_name_for_day'', ''get_name_for_day'', ''get_name_for_day'']"
proof -
  let ?a = "ReactAgent_init ''gpt-4o''"
  let ?tcs = "[day_call ''call_1'', day_call ''call_2'', day_call ''call_3'']"
  let ?it = "run_iteration three_day_calls ?a 0 world0"
  have h1: "llm three_day_calls (length (gateway_log world0)) (model ?a) (store world0 0)
     = Inr (resp_tools None ?tcs)" by (simp add: three_day_calls_def stub_env_def)
  have h2: "resp_tool_calls (resp_tools None ?tcs) = Some ?tcs" by (simp add: resp_tools_def)
  have h3: "?tcs \<noteq> []" by simp
  have h4: "?it = (fst ?it, snd ?it)" by simp
  have r: "fst ?it = Inr ()"
    by (simp add: three_day_calls_def stub_defs model_defs)
  have s0: "store (snd ?it) 0 = store world0 0 @
        [assistant_tool_calls_msg (resp_tools None ?tcs),
         tool_msg three_day_calls ''call_1'' ''get_name_for_day''
           (JObj [(''date'', JStr ''2024-10-28''), (''name'', JStr ''Error fetching data'')]),
         tool_msg three_day_calls ''call_2'' ''get_name_for_day''
           (JObj [(''date'', JStr ''2024-10-28''), (''name'', JStr ''Error fetching data'')]),
         tool_msg three_day_calls ''call_3'' ''get_name_for_day''
           (JObj [(''date'', JStr ''2024-10-28''), (''name'', JStr ''Error fetching data'')])]"
    by (simp add: three_day_calls_def stub_defs model_defs)
  have e0: "exec_log world0 = []" by (simp add: world0_def)
  from tool_calls_executed_in_order [OF h1 h2 h3 h4] r
  obtain vs resps where "length vs = length ?tcs" "length resps = length ?tcs"
    "exec_log (snd ?it) = exec_log world0 @ zip (map tc_name (take (length ?tcs) ?tcs)) (zip vs (map Inr resps)) @ []"
    by auto
  then have "map fst (exec_log (snd ?it)) = map tc_name ?tcs"
    by (simp add: e0)
  then have "map fst (exec_log (snd ?it)) = [''get_name_for_day'', ''get_name_for_day'', ''get_name_for_day'']"
    by (simp add: day_call_def tool_request_def)
  with h1 r s0 show ?thesis by simp
qed

text \<open>
  The claim as stated fails: of two requests the second has the arguments \<^verbatim>\<open>{}\<close>, the
  call raises \<^verbatim>\<open>TypeError\<close>, and the transcript holds one \<^verbatim>\<open>tool\<close> message, not two.
\<close>

theorem raising_request_stops_the_turn:
  "llm second_call_bad_args (length (gateway_log world0)) (model (ReactAgent_init ''gpt-4o''))
       (store world0 0)
     = Inr (resp_tools None [day_call ''call_1'', tool_request ''call_2'' ''get_name_for_day'' ''{}''])
   \<and> fst (run second_call_bad_args (ReactAgent_init ''gpt-4o'') 0 world0) = Raised TypeError
   \<and> filter is_tool_message
        (store (snd (run second_call_bad_args (ReactAgent_init ''gpt-4o'') 0 world0)) 0)
      = [tool_msg second_call_bad_args ''call_1'' ''get_name_for_day''
           (JObj [(''date'', JStr ''2024-10-28''), (''name'', JStr ''Error fetching data'')])]"
  by (simp add: second_call_bad_args_def is_tool_message_def stub_defs model_defs run_loop.simps)

text \<open>
  Claim C5, as amended. In \<^verbatim>\<open>ReactAgent.run\<close>, a response carrying tool calls makes the
  loop append one assistant message that holds the response's \<^verbatim>\<open>content\<close> and an entry
  for every request; what follows it in that pass are \<^verbatim>\<open>tool\<close> messages. In
  \<^verbatim>\<open>get_completion_from_messages\<close>, the assistant message, appended once the first
  request's tool has returned, has no \<^verbatim>\<open>content\<close> key and the one entry of the first
  request, its arguments serialized again from the decoded ones.
\<close>

theorem assistant_message_of_a_tool_turn:
  "(\<forall>resp res w1. llm e (length (gateway_log w)) (model self) (store w r) = Inr resp
        \<and> truthy (resp_tool_calls resp)
        \<and> run_iteration e self r w = (res, w1) \<longrightarrow>
      (\<exists>tms. store w1 r = store w r @
                \<lparr>role = ''assistant'', content = Some (resp_content resp),
                 tool_calls = Some (map (\<lambda>tc. \<lparr>call_id = tc_id tc, call_type = ''function'',
                                              function_name = tc_name tc,
                                              function_arguments = tc_arguments tc\<rparr>)
                                     (calls_of (resp_tool_calls resp))),
                 tool_call_id = None, name = None\<rparr> # tms
            \<and> list_all is_tool_message tms))
   \<and> (\<forall>res w'. get_completion_from_messages e r mdl w = (res, w') \<longrightarrow>
        store w' r = store w r
        \<or> (\<exists>resp tc others args function_response.
              llm e (length (gateway_log w)) mdl (store w r) = Inr resp
              \<and> resp_tool_calls resp = Some (tc # others)
              \<and> json_loads e (tc_arguments tc) = Inr args
              \<and> store w' r = store w r @
                  [\<lparr>role = ''assistant'', content = None,
                    tool_calls = Some [\<lparr>call_id = tc_id tc, call_type = ''function'',
                                        function_name = tc_name tc,
                                        function_arguments = json_dumps e args\<rparr>],
                    tool_call_id = None, name = None\<rparr>,
                   tool_msg e (tc_id tc) (tc_name tc) function_response]))"
proof (intro conjI)
  show "\<forall>resp res w1. llm e (length (gateway_log w)) (model self) (store w r) = Inr resp
        \<and> truthy (resp_tool_calls resp)
        \<and> run_iteration e self r w = (res, w1) \<longrightarrow>
      (\<exists>tms. store w1 r = store w r @
                \<lparr>role = ''assistant'', content = Some (resp_content resp),
                 tool_calls = Some (map (\<lambda>tc. \<lparr>call_id = tc_id tc, call_type = ''function'',
                                              function_name = tc_name tc,
                                              function_arguments = tc_arguments tc\<rparr>)
                                     (calls_of (resp_tool_calls resp))),
                 tool_call_id = None, name = None\<rparr> # tms
            \<and> list_all is_tool_message tms)"
  proof (intro allI impI)
    fix resp res w1
    assume a: "llm e (length (gateway_log w)) (model self) (store w r) = Inr resp
        \<and> truthy (resp_tool_calls resp)
        \<and> run_iteration e self r w = (res, w1)"
    then have a1: "llm e (length (gateway_log w)) (model self) (store w r) = Inr resp"
      and a2: "truthy (resp_tool_calls resp)" and a3: "run_iteration e self r w = (res, w1)"
      by simp_all
    from run_iteration_tools_summary [OF a1 a2 a3] obtain k resps where
      s: "store w1 = (store w)(r := store w r @ assistant_tool_calls_msg resp
                        # tool_msgs e (take k (calls_of (resp_tool_calls resp))) resps)"
      by blast
    have "list_all is_tool_message (tool_msgs e tcs' resps)" for tcs'
      by (auto simp: tool_msgs_def tool_msg_def is_tool_message_def list_all_iff dest!: set_zip_leftD)
    with s show "\<exists>tms. store w1 r = store w r @
                \<lparr>role = ''assistant'', content = Some (resp_content resp),
                 tool_calls = Some (map (\<lambda>tc. \<lparr>call_id = tc_id tc, call_type = ''function'',
                                              function_name = tc_name tc,
                                              function_arguments = tc_arguments tc\<rparr>)
                                     (calls_of (resp_tool_calls resp))),
                 tool_call_id = None, name = None\<rparr> # tms
            \<and> list_all is_tool_message tms"
      by (intro exI [of _ "tool_msgs e (take k (calls_of (resp_tool_calls resp))) resps"])
        (simp add: assistant_tool_calls_msg_def tool_call_entry_def [abs_def])
  qed
next
  show "\<forall>res w'. get_completion_from_messages e r mdl w = (res, w') \<longrightarrow>
        store w' r = store w r
        \<or> (\<exists>resp tc others args function_response.
              llm e (length (gateway_log w)) mdl (store w r) = Inr resp
              \<and> resp_tool_calls resp = Some (tc # others)
              \<and> json_loads e (tc_arguments tc) = Inr args
              \<and> store w' r = store w r @
                  [\<lparr>role = ''assistant'', content = None,
                    tool_calls = Some [\<lparr>call_id = tc_id tc, call_type = ''function'',
                                        function_name = tc_name tc,
                                        function_arguments = json_dumps e args\<rparr>],
                    tool_call_id = None, name = None\<rparr>,
                   tool_msg e (tc_id tc) (tc_name tc) function_response])"
  proof (intro allI impI)
    fix res w'
    assume "get_completion_from_messages e r mdl w = (res, w')"
    from get_completion_summary [OF this]
    consider (one) "store w' = store w"
      | (two) resp tc others v fr where
        "llm e (length (gateway_log w)) mdl (store w r) = Inr resp"
        "resp_tool_calls resp = Some (tc # others)"
        "json_loads e (tc_arguments tc) = Inr (JObj [(''date'', v)])"
        "store w' = (store w)(r := store w r @
                   [pure_assistant_msg e (tc_id tc) (tc_name tc) (JObj [(''date'', v)]),
                    tool_msg e (tc_id tc) (tc_name tc) fr])"
      by blast
    then show "store w' r = store w r
        \<or> (\<exists>resp tc others args function_response.
              llm e (length (gateway_log w)) mdl (store w r) = Inr resp
              \<and> resp_tool_calls resp = Some (tc # others)
              \<and> json_loads e (tc_arguments tc) = Inr args
              \<and> store w' r = store w r @
                  [\<lparr>role = ''assistant'', content = None,
                    tool_calls = Some [\<lparr>call_id = tc_id tc, call_type = ''function'',
                                        function_name = tc_name tc,
                                        function_arguments = json_dumps e args\<rparr>],
                    tool_call_id = None, name = None\<rparr>,
                   tool_msg e (tc_id tc) (tc_name tc) function_response])"
    proof cases
      case one
      then show ?thesis by simp
    next
      case two
      show ?thesis
        apply (rule disjI2)
        apply (rule exI [of _ resp], rule exI [of _ tc], rule exI [of _ others],
            rule exI [of _ "JObj [(''date'', v)]"], rule exI [of _ fr])
        using two by (simp add: pure_assistant_msg_def)
    qed
  qed
qed

theorem assistant_message_of_a_tool_turn_witness:
  "llm two_calls_then_more (length (gateway_log world0)) (model (ReactAgent_init ''gpt-4o''))
       (store world0 0)
     = Inr (resp_tools (Some ''Let me look that up.'') [day_call ''call_1'', week_call ''call_2''])
   \<and> truthy (resp_tool_calls
        (resp_tools (Some ''Let me look that up.'') [day_call ''call_1'', week_call ''call_2'']))
   \<and> store (snd (run_iteration two_calls_then_more (ReactAgent_init ''gpt-4o'') 0 world0)) 0
         ! length (store world0 0)
      = \<lparr>role = ''assistant'', content = Some (Some ''Let me look that up.''),
         tool_calls = Some [\<lparr>call_id = ''call_1'', call_type = ''function'',
                             function_name = ''get_name_for_day'', function_arguments = args_ok\<rparr>,
                            \<lparr>call_id = ''call_2'', call_type = ''function'',
                             function_name = ''get_names_for_week'', function_arguments = args_ok\<rparr>],
         tool_call_id = None, name = None\<rparr>"
proof -
  let ?a = "ReactAgent_init ''gpt-4o''"
  let ?resp = "resp_tools (Some ''Let me look that up.'') [day_call ''call_1'', week_call ''call_2'']"
  let ?it = "run_iteration two_calls_then_more ?a 0 world0"
  have h: "llm two_calls_then_more (length (gateway_log world0)) (model ?a) (store world0 0) = Inr ?resp
      \<and> truthy (resp_tool_calls ?resp)
      \<and> ?it = (fst ?it, snd ?it)"
    by (simp add: two_calls_then_more_def stub_env_def resp_tools_def world0_def)
  from assistant_message_of_a_tool_turn [of two_calls_then_more world0 ?a 0 "''gpt-4o''"]
  have "\<forall>resp res w1. llm two_calls_then_more (length (gateway_log world0)) (model ?a) (store world0 0) = Inr resp
        \<and> truthy (resp_tool_calls resp)
        \<and> ?it = (res, w1) \<longrightarrow>
      (\<exists>tms. store w1 0 = store world0 0 @
                \<lparr>role = ''assistant'', content = Some (resp_content resp),
                 tool_calls = Some (map (\<lambda>tc. \<lparr>call_id = tc_id tc, call_type = ''function'',
                                              function_name = tc_name tc,
                                              function_arguments = tc_arguments tc\<rparr>)
                                     (calls_of (resp_tool_calls resp))),
                 tool_call_id = None, name = None\<rparr> # tms)"
    by blast
  with h obtain tms where "store (snd ?it) 0 = store world0 0 @
                \<lparr>role = ''assistant'', content = Some (resp_content ?resp),
                 tool_calls = Some (map (\<lambda>tc. \<lparr>call_id = tc_id tc, call_type = ''function'',
                                              function_name = tc_name tc,
                                              function_arguments = tc_arguments tc\<rparr>)
                                     (calls_of (resp_tool_calls ?resp))),
                 tool_call_id = None, name = None\<rparr> # tms"
    by blast
  then have "store (snd ?it) 0 ! length (store world0 0) =
                \<lparr>role = ''assistant'', content = Some (resp_content ?resp),
                 tool_calls = Some (map (\<lambda>tc. \<lparr>call_id = tc_id tc, call_type = ''function'',
                                              function_name = tc_name tc,
                                              function_arguments = tc_arguments tc\<rparr>)
                                     (calls_of (resp_tool_calls ?resp))),
                 tool_call_id = None, name = None\<rparr>"
    by simp
  with h show ?thesis
    by (simp add: resp_tools_def day_call_def week_call_def tool_request_def)
qed

text \<open>
  The claim as stated fails in the pure-tool variant: the response says
  \<^verbatim>\<open>"Let me look that up."\<close> and carries two requests; the assistant message appended
  has no content and one entry.
\<close>

theorem pure_tool_drops_content_and_requests:
  "llm two_calls_then_more (length (gateway_log world0)) ''gpt-4o'' (store world0 0)
     = Inr \<lparr>resp_content = Some ''Let me look that up.'',
            resp_tool_calls = Some [day_call ''call_1'', week_call ''call_2'']\<rparr>
   \<and> store (snd (get_completion_from_messages two_calls_then_more 0 ''gpt-4o'' world0)) 0
      = store world0 0 @
         [\<lparr>role = ''assistant'', content = None,
           tool_calls = Some [\<lparr>call_id = ''call_1'', call_type = ''function'',
                               function_name = ''get_name_for_day'',
                               function_arguments =
                                 dumps_stub (JObj [(''date'', JStr ''2024-10-28'')])\<rparr>],
           tool_call_id = None, name = None\<rparr>,
          tool_msg two_calls_then_more ''call_1'' ''get_name_for_day''
            (JObj [(''date'', JStr ''2024-10-28''), (''name'', JStr ''Error fetching data'')])]"
  by (simp add: two_calls_then_more_def week_call_def stub_defs model_defs)

section \<open>The pure-tool variant\<close>

text \<open>
  Claim C9. \<^verbatim>\<open>get_completion_from_messages\<close> executes at most one tool call, and that
  call is for the first element of the first response's \<^verbatim>\<open>tool_calls\<close>. It makes at
  most two gateway calls, and the second response is returned as it is, whatever its
  \<^verbatim>\<open>tool_calls\<close>.
\<close>

theorem pure_tool_single_call:
  "get_completion_from_messages e r mdl w = (res, w') \<Longrightarrow>
     (\<exists>new. exec_log w' = exec_log w @ new \<and> length new \<le> 1
        \<and> list_all (\<lambda>entry. \<exists>resp tc others.
                llm e (length (gateway_log w)) mdl (store w r) = Inr resp
                \<and> resp_tool_calls resp = Some (tc # others)
                \<and> fst entry = tc_name tc
                \<and> json_loads e (tc_arguments tc) = Inr (JObj [(''date'', fst (snd entry))])) new)
   \<and> (\<exists>gs. gateway_log w' = gateway_log w @ gs \<and> length gs \<le> 2
        \<and> (\<forall>g1 final_answer. gs = [g1, Inr final_answer] \<longrightarrow> res = Returned final_answer))"
proof -
  assume "get_completion_from_messages e r mdl w = (res, w')"
  from get_completion_summary [OF this]
  consider
    (one) "gateway_log w' = gateway_log w @ [llm e (length (gateway_log w)) mdl (store w r)]"
      "exec_log w' = exec_log w
              \<or> (\<exists>resp tc others v x. llm e (length (gateway_log w)) mdl (store w r) = Inr resp
                    \<and> resp_tool_calls resp = Some (tc # others)
                    \<and> json_loads e (tc_arguments tc) = Inr (JObj [(''date'', v)])
                    \<and> exec_log w' = exec_log w @ [(tc_name tc, v, Inl x)])"
  | (two) resp tc others v fr g2 where
      "llm e (length (gateway_log w)) mdl (store w r) = Inr resp"
      "resp_tool_calls resp = Some (tc # others)"
      "json_loads e (tc_arguments tc) = Inr (JObj [(''date'', v)])"
      "exec_log w' = exec_log w @ [(tc_name tc, v, Inr fr)]"
      "gateway_log w' = gateway_log w @ [Inr resp, g2]"
      "res = (case g2 of Inl x \<Rightarrow> Raised x | Inr final_answer \<Rightarrow> Returned final_answer)"
    by blast
  then show ?thesis
  proof cases
    case one
    have g: "\<exists>gs. gateway_log w' = gateway_log w @ gs \<and> length gs \<le> 2
        \<and> (\<forall>g1 final_answer. gs = [g1, Inr final_answer] \<longrightarrow> res = Returned final_answer)"
      using one(1) by (intro exI [of _ "[llm e (length (gateway_log w)) mdl (store w r)]"]) simp
    from one(2) show ?thesis
    proof
      assume "exec_log w' = exec_log w"
      then have "\<exists>new. exec_log w' = exec_log w @ new \<and> length new \<le> 1
        \<and> list_all (\<lambda>entry. \<exists>resp tc others.
                llm e (length (gateway_log w)) mdl (store w r) = Inr resp
                \<and> resp_tool_calls resp = Some (tc # others)
                \<and> fst entry = tc_name tc
                \<and> json_loads e (tc_arguments tc) = Inr (JObj [(''date'', fst (snd entry))])) new"
        by (intro exI [of _ "[]"]) simp
      with g show ?thesis by blast
    next
      assume "\<exists>resp tc others v x. llm e (length (gateway_log w)) mdl (store w r) = Inr resp
                    \<and> resp_tool_calls resp = Some (tc # others)
                    \<and> json_loads e (tc_arguments tc) = Inr (JObj [(''date'', v)])
                    \<and> exec_log w' = exec_log w @ [(tc_name tc, v, Inl x)]"
      then obtain resp tc others v x where
        h: "llm e (length (gateway_log w)) mdl (store w r) = Inr resp"
        "resp_tool_calls resp = Some (tc # others)"
        "json_loads e (tc_arguments tc) = Inr (JObj [(''date'', v)])"
        "exec_log w' = exec_log w @ [(tc_name tc, v, Inl x)]" by blast
      then have "\<exists>new. exec_log w' = exec_log w @ new \<and> length new \<le> 1
        \<and> list_all (\<lambda>entry. \<exists>resp tc others.
                llm e (length (gateway_log w)) mdl (store w r) = Inr resp
                \<and> resp_tool_calls resp = Some (tc # others)
                \<and> fst entry = tc_name tc
                \<and> json_loads e (tc_arguments tc) = Inr (JObj [(''date'', fst (snd entry))])) new"
        by (intro exI [of _ "[(tc_name tc, v, Inl x)]"]) auto
      with g show ?thesis by blast
    qed
  next
    case two
    have g: "\<exists>gs. gateway_log w' = gateway_log w @ gs \<and> length gs \<le> 2
        \<and> (\<forall>g1 final_answer. gs = [g1, Inr final_answer] \<longrightarrow> res = Returned final_answer)"
      using two(5,6) by (intro exI [of _ "[Inr resp, g2]"]) auto
    from two have "\<exists>new. exec_log w' = exec_log w @ new \<and> length new \<le> 1
        \<and> list_all (\<lambda>entry. \<exists>resp tc others.
                llm e (length (gateway_log w)) mdl (store w r) = Inr resp
                \<and> resp_tool_calls resp = Some (tc # others)
                \<and> fst entry = tc_name tc
                \<and> json_loads e (tc_arguments tc) = Inr (JObj [(''date'', fst (snd entry))])) new"
      by (intro exI [of _ "[(tc_name tc, v, Inr fr)]"]) auto
    with g show ?thesis by blast
  qed
qed

theorem pure_tool_single_call_witness:
  "fst (get_completion_from_messages two_calls_then_more 0 ''gpt-4o'' world0)
     = Returned (resp_tools None [day_call ''call_3''])
   \<and> truthy (resp_tool_calls (resp_tools None [day_call ''call_3'']))
   \<and> exec_log (snd (get_completion_from_messages two_calls_then_more 0 ''gpt-4o'' world0))
       = [(''get_name_for_day'', JStr ''2024-10-28'',
           Inr (JObj [(''date'', JStr ''2024-10-28''), (''name'', JStr ''Error fetching data'')]))]
   \<and> length (gateway_log (snd (get_completion_from_messages two_calls_then_more 0 ''gpt-4o'' world0))) = 2"
proof -
  let ?run = "get_completion_from_messages two_calls_then_more 0 ''gpt-4o'' world0"
  have gl: "gateway_log (snd ?run) = gateway_log world0 @
      [Inr (resp_tools (Some ''Let me look that up.'') [day_call ''call_1'', week_call ''call_2'']),
       Inr (resp_tools None [day_call ''call_3''])]"
    by (simp add: two_calls_then_more_def week_call_def stub_defs model_defs)
  have el: "exec_log (snd ?run)
       = [(''get_name_for_day'', JStr ''2024-10-28'',
           Inr (JObj [(''date'', JStr ''2024-10-28''), (''name'', JStr ''Error fetching data'')]))]"
    by (simp add: two_calls_then_more_def week_call_def stub_defs model_defs)
  from pure_tool_single_call [of two_calls_then_more 0 "''gpt-4o''" world0 "fst ?run" "snd ?run"]
  obtain gs where "gateway_log (snd ?run) = gateway_log world0 @ gs"
    "\<forall>g1 final_answer. gs = [g1, Inr final_answer] \<longrightarrow> fst ?run = Returned final_answer"
    by auto
  with gl have "fst ?run = Returned (resp_tools None [day_call ''call_3''])" by simp
  with gl el show ?thesis by (simp add: resp_tools_def world0_def)
qed

end
